theory Spec2Isabelle
  imports Main "HOL-Library.Char_ord" "HOL-Library.List_Lexorder"
begin

section \<open>Snapshot capture, diff and restore of gemctl-go\<close>

text \<open>
  A shallow embedding of \<^verbatim>\<open>internal/client/snapshot.go\<close> (package \<^verbatim>\<open>client\<close>) and of the
  agent types it uses.

  Conventions of the embedding.
  \<^item> A Go \<^verbatim>\<open>string\<close> is a \<open>string\<close> (a list of bytes).
  \<^item> A Go slice of strings is a \<open>string list\<close>; the code never tells a nil slice from
    an empty one (it only takes \<^verbatim>\<open>len\<close>, ranges and appends).
  \<^item> A Go map is an optional association list: \<open>None\<close> is the nil map, which the code
    tests for in \<^verbatim>\<open>cloneStringMap\<close>, \<^verbatim>\<open>cloneStringInterfaceMap\<close> and
    \<^verbatim>\<open>applyFeatureSnapshot\<close>. A key is looked up with \<open>map_of\<close>.
  \<^item> A pointer to a struct that the code only reads or copies by value is an \<open>option\<close>
    (\<open>None\<close> is nil). The pointer to a \<^verbatim>\<open>SearchEngineConfig\<close> is an address into
    an explicit heap, because \<^verbatim>\<open>CreateEngineSnapshot\<close> stores the pointer itself.
  \<^item> Values of type \<^verbatim>\<open>interface{}\<close> are values of a type parameter \<open>'v\<close>.
  \<^item> Library functions of Go (\<^verbatim>\<open>strings.ToLower\<close>, \<^verbatim>\<open>fmt.Sprintf("%v", _)\<close>, the type
    assertion \<^verbatim>\<open>.(string)\<close>, \<^verbatim>\<open>time.Now\<close>) are parameters.
  \<^item> The order in which \<^verbatim>\<open>range\<close> visits the keys of a map is a parameter: the Go
    language leaves it unspecified.
  \<^item> \<^verbatim>\<open>DiffSnapshots\<close> is given snapshots, not pointers: its callers pass pointers that
    are not nil.
\<close>

subsection \<open>Agents\<close>

type_synonym 'v gomap = "(string \<times> 'v) list option"

record AgentIcon =
  icon_URI :: string
  icon_Content :: string

record DialogflowAgentDefinition =
  DialogflowAgent :: string

record 'v Agent =
  ag_Name :: string
  ag_DisplayName :: string
  ag_Description :: string
  ag_Icon :: "AgentIcon option"
  ag_DialogflowAgentDefinition :: "DialogflowAgentDefinition option"
  ag_ReasoningEngine :: string
  ag_CreateTime :: string
  ag_UpdateTime :: string
  ag_ConnectorDefinition :: "'v gomap"
  ag_AdditionalAgentProperties :: "'v gomap"
  ag_Annotations :: "string gomap"
  ag_Labels :: "string gomap"
  ag_EnvironmentConfigurations :: "'v gomap list"
  ag_AgentMonitoringState :: "'v gomap"
  ag_Capabilities :: "string list"
  ag_Metadata :: "'v gomap"

text \<open>The zero value \<^verbatim>\<open>Agent{}\<close>.\<close>

definition zeroAgent :: "'v Agent" where
  "zeroAgent =
     \<lparr>ag_Name = [], ag_DisplayName = [], ag_Description = [], ag_Icon = None,
      ag_DialogflowAgentDefinition = None, ag_ReasoningEngine = [], ag_CreateTime = [],
      ag_UpdateTime = [], ag_ConnectorDefinition = None, ag_AdditionalAgentProperties = None,
      ag_Annotations = None, ag_Labels = None, ag_EnvironmentConfigurations = [],
      ag_AgentMonitoringState = None, ag_Capabilities = [], ag_Metadata = None\<rparr>"

subsection \<open>The identity key of an agent\<close>

text \<open>
  \<^verbatim>\<open>agentSnapshotKey(agent *Agent) string\<close>; \<open>lower\<close> is \<^verbatim>\<open>strings.ToLower\<close>.
\<close>

definition agentSnapshotKey :: "(string \<Rightarrow> string) \<Rightarrow> 'v Agent option \<Rightarrow> string" where
  "agentSnapshotKey lower agent =
     (case agent of
        None \<Rightarrow> []
      | Some a \<Rightarrow>
          (case ag_DialogflowAgentDefinition a of
             Some d \<Rightarrow>
               if DialogflowAgent d \<noteq> [] then lower (DialogflowAgent d)
               else if ag_DisplayName a \<noteq> [] then lower (ag_DisplayName a)
               else lower (ag_Name a)
           | None \<Rightarrow>
               if ag_DisplayName a \<noteq> [] then lower (ag_DisplayName a)
               else lower (ag_Name a)))"

text \<open>
  The key as the specification words it: the external agent link of an agent is the
  Dialogflow agent of its definition, absent when there is no definition or the string is
  empty; the key is the lowercase of the first field present among link, display name and
  server name, and the empty string when none is.
\<close>

definition agentLink :: "'v Agent \<Rightarrow> string" where
  "agentLink a = (case ag_DialogflowAgentDefinition a of None \<Rightarrow> [] | Some d \<Rightarrow> DialogflowAgent d)"

fun firstNonEmpty :: "string list \<Rightarrow> string option" where
  "firstNonEmpty [] = None"
| "firstNonEmpty (s # ss) = (if s \<noteq> [] then Some s else firstNonEmpty ss)"

definition specAgentKey :: "(string \<Rightarrow> string) \<Rightarrow> 'v Agent option \<Rightarrow> string" where
  "specAgentKey lower agent =
     (case agent of
        None \<Rightarrow> []
      | Some a \<Rightarrow>
          (case firstNonEmpty [agentLink a, ag_DisplayName a, ag_Name a] of
             None \<Rightarrow> []
           | Some s \<Rightarrow> lower s))"

text \<open>
  A lowering of ASCII letters, used to instantiate \<open>lower\<close> at concrete inputs: on a string
  of ASCII bytes \<^verbatim>\<open>strings.ToLower\<close> maps \<^verbatim>\<open>A\<close>..\<^verbatim>\<open>Z\<close> to \<^verbatim>\<open>a\<close>..\<^verbatim>\<open>z\<close> and keeps the rest.
\<close>

definition asciiLowerChar :: "char \<Rightarrow> char" where
  "asciiLowerChar c =
     (case map_of (zip ''ABCDEFGHIJKLMNOPQRSTUVWXYZ'' ''abcdefghijklmnopqrstuvwxyz'') c of
        Some l \<Rightarrow> l
      | None \<Rightarrow> c)"

definition asciiLower :: "string \<Rightarrow> string" where
  "asciiLower s = map asciiLowerChar s"

subsection \<open>The snapshot model\<close>

record SnapshotMetadata =
  md_Version :: string
  md_OriginalEngineName :: string
  md_OriginalEngineID :: string
  md_SourceProjectID :: string
  md_SourceLocation :: string
  md_SourceCollection :: string
  md_TakenAt :: string
  md_DisplayName :: string
  md_Description :: string
  md_Notes :: string

text \<open>
  Modelled from the spec: the declaration of \<^verbatim>\<open>SearchEngineConfig\<close> is not among the
  source files; the fields are the two that \<^verbatim>\<open>snapshot.go\<close> reads (the "tier + ordered
  add-on list" of the specification).
\<close>

record SearchEngineConfig =
  SearchTier :: string
  SearchAddOns :: "string list"

type_synonym addr = nat

type_synonym heap = "addr \<Rightarrow> SearchEngineConfig option"

record 'v EngineConfigSnapshot =
  ec_DisplayName :: string
  ec_SolutionType :: string
  ec_IndustryVertical :: string
  ec_AppType :: string
  ec_DataStoreIds :: "string list"
  ec_CommonConfig :: "'v gomap"
  ec_Features :: "string gomap"
  ec_SearchConfig :: "addr option"

record 'v EngineSnapshot =
  sn_Metadata :: SnapshotMetadata
  sn_Engine :: "'v EngineConfigSnapshot"
  sn_Agents :: "'v Agent option list"

text \<open>
  The value of a \<^verbatim>\<open>FieldDiff\<close>'s \<^verbatim>\<open>Old\<close> and \<^verbatim>\<open>New\<close> (\<^verbatim>\<open>interface{}\<close>): the code stores a
  string, a string slice, a common-config map or a search-config pointer there.
\<close>

datatype 'v fieldval =
  VString string
| VStrings "string list"
| VMap "'v gomap"
| VSearchConfig "addr option"

record 'v FieldDiff =
  fd_Field :: string
  fd_Old :: "'v fieldval"
  fd_New :: "'v fieldval"

record FeatureDiff =
  Feature :: string
  ft_Old :: string
  ft_New :: string

datatype AgentDiffKind = AgentDiffAdded | AgentDiffRemoved | AgentDiffUpdated

record 'v AgentDiff =
  Key :: string
  ChangeType :: AgentDiffKind
  ad_Old :: "'v Agent option"
  ad_New :: "'v Agent option"

record 'v SnapshotDiff =
  MetadataChanges :: "'v FieldDiff list"
  EngineChanges :: "'v FieldDiff list"
  FeatureChanges :: "FeatureDiff list"
  AgentChanges :: "'v AgentDiff list"

text \<open>The zero value \<^verbatim>\<open>SnapshotDiff{}\<close>.\<close>

definition zeroDiff :: "'v SnapshotDiff" where
  "zeroDiff = \<lparr>MetadataChanges = [], EngineChanges = [], FeatureChanges = [], AgentChanges = []\<rparr>"

definition IsEmpty :: "'v SnapshotDiff \<Rightarrow> bool" where
  "IsEmpty d \<longleftrightarrow>
     length (MetadataChanges d) = 0 \<and> length (EngineChanges d) = 0 \<and>
     length (FeatureChanges d) = 0 \<and> length (AgentChanges d) = 0"

subsection \<open>Go maps\<close>

text \<open>\<^verbatim>\<open>v, ok := m[k]\<close>, the keys of a map, and \<^verbatim>\<open>len(m)\<close>.\<close>

definition mapLookup :: "'a gomap \<Rightarrow> string \<Rightarrow> 'a option" where
  "mapLookup m k = (case m of None \<Rightarrow> None | Some al \<Rightarrow> map_of al k)"

definition mapKeys :: "'a gomap \<Rightarrow> string list" where
  "mapKeys m = (case m of None \<Rightarrow> [] | Some al \<Rightarrow> remdups (map fst al))"

definition mapLen :: "'a gomap \<Rightarrow> nat" where
  "mapLen m = length (mapKeys m)"

text \<open>\<^verbatim>\<open>m[k]\<close> on a \<^verbatim>\<open>map[string]string\<close>: the empty string when the key is absent.\<close>

definition mapIndex :: "string gomap \<Rightarrow> string \<Rightarrow> string" where
  "mapIndex m k = (case mapLookup m k of None \<Rightarrow> [] | Some v \<Rightarrow> v)"

text \<open>
  A list is an order in which \<^verbatim>\<open>range\<close> may visit a map when it holds every key of the
  map once.
\<close>

definition rangeOrder :: "(string \<Rightarrow> 'a option) \<Rightarrow> string list \<Rightarrow> bool" where
  "rangeOrder m ks \<longleftrightarrow> distinct ks \<and> set ks = dom m"

subsection \<open>Clones and comparisons\<close>

definition cloneStringMap :: "string gomap \<Rightarrow> string gomap" where
  "cloneStringMap src =
     (case src of None \<Rightarrow> None | Some al \<Rightarrow> Some (map (\<lambda>(k, v). (k, v)) al))"

definition cloneStringInterfaceMap :: "'v gomap \<Rightarrow> 'v gomap" where
  "cloneStringInterfaceMap src =
     (case src of None \<Rightarrow> None | Some al \<Rightarrow> Some (map (\<lambda>(k, v). (k, v)) al))"

text \<open>
  \<^verbatim>\<open>cloneAgents\<close> skips nil entries and copies each agent, its icon and its Dialogflow
  definition into fresh structs; the maps and slices inside the agent are copied as
  references.
\<close>

definition cloneAgents :: "'v Agent option list \<Rightarrow> 'v Agent option list" where
  "cloneAgents src =
     concat (map (\<lambda>agent.
        case agent of
          None \<Rightarrow> []
        | Some a \<Rightarrow>
            [Some (a\<lparr>ag_Icon := (case ag_Icon a of None \<Rightarrow> None | Some icon \<Rightarrow> Some icon),
                     ag_DialogflowAgentDefinition :=
                       (case ag_DialogflowAgentDefinition a of
                          None \<Rightarrow> None | Some def \<Rightarrow> Some def)\<rparr>)]) src)"

definition stringSlicesEqual :: "string list \<Rightarrow> string list \<Rightarrow> bool" where
  "stringSlicesEqual a b =
     (if length a \<noteq> length b then False
      else list_all (\<lambda>i. a ! i = b ! i) [0..<length a])"

text \<open>\<open>fmtv\<close> is \<^verbatim>\<open>fmt.Sprintf("%v", _)\<close>.\<close>

definition mapsEqual :: "('v \<Rightarrow> string) \<Rightarrow> 'v gomap \<Rightarrow> 'v gomap \<Rightarrow> bool" where
  "mapsEqual fmtv a b =
     (if mapLen a \<noteq> mapLen b then False
      else list_all (\<lambda>k.
             case mapLookup a k of
               None \<Rightarrow> True
             | Some v \<Rightarrow>
                 (case mapLookup b k of
                    None \<Rightarrow> False
                  | Some bv \<Rightarrow> fmtv v = fmtv bv)) (mapKeys a))"

text \<open>
  A Go pointer that is not nil points to a struct; the heap of the model is a partial
  map, and reading an address that holds nothing gives the zero struct.
\<close>

definition deref :: "heap \<Rightarrow> addr \<Rightarrow> SearchEngineConfig" where
  "deref H p = (case H p of Some c \<Rightarrow> c | None \<Rightarrow> \<lparr>SearchTier = [], SearchAddOns = []\<rparr>)"

definition compareSearchConfigs :: "heap \<Rightarrow> addr option \<Rightarrow> addr option \<Rightarrow> bool" where
  "compareSearchConfigs H a b =
     (case (a, b) of
        (None, None) \<Rightarrow> True
      | (None, Some pb) \<Rightarrow> False
      | (Some pa, None) \<Rightarrow> False
      | (Some pa, Some pb) \<Rightarrow>
          if SearchTier (deref H pa) \<noteq> SearchTier (deref H pb) then False
          else stringSlicesEqual (SearchAddOns (deref H pa)) (SearchAddOns (deref H pb)))"

subsection \<open>The structural differ\<close>

definition diffMetadata :: "SnapshotMetadata \<Rightarrow> SnapshotMetadata \<Rightarrow> 'v FieldDiff list" where
  "diffMetadata a b =
     (if md_DisplayName a \<noteq> md_DisplayName b
      then [\<lparr>fd_Field = ''displayName'', fd_Old = VString (md_DisplayName a),
             fd_New = VString (md_DisplayName b)\<rparr>] else [])
     @ (if md_Description a \<noteq> md_Description b
        then [\<lparr>fd_Field = ''description'', fd_Old = VString (md_Description a),
               fd_New = VString (md_Description b)\<rparr>] else [])
     @ (if md_Notes a \<noteq> md_Notes b
        then [\<lparr>fd_Field = ''notes'', fd_Old = VString (md_Notes a),
               fd_New = VString (md_Notes b)\<rparr>] else [])"

definition diffEngineConfig ::
  "('v \<Rightarrow> string) \<Rightarrow> heap \<Rightarrow> 'v EngineConfigSnapshot \<Rightarrow> 'v EngineConfigSnapshot
     \<Rightarrow> 'v FieldDiff list" where
  "diffEngineConfig fmtv H a b =
     (if ec_DisplayName a \<noteq> ec_DisplayName b
      then [\<lparr>fd_Field = ''displayName'', fd_Old = VString (ec_DisplayName a),
             fd_New = VString (ec_DisplayName b)\<rparr>] else [])
     @ (if ec_SolutionType a \<noteq> ec_SolutionType b
        then [\<lparr>fd_Field = ''solutionType'', fd_Old = VString (ec_SolutionType a),
               fd_New = VString (ec_SolutionType b)\<rparr>] else [])
     @ (if ec_IndustryVertical a \<noteq> ec_IndustryVertical b
        then [\<lparr>fd_Field = ''industryVertical'', fd_Old = VString (ec_IndustryVertical a),
               fd_New = VString (ec_IndustryVertical b)\<rparr>] else [])
     @ (if ec_AppType a \<noteq> ec_AppType b
        then [\<lparr>fd_Field = ''appType'', fd_Old = VString (ec_AppType a),
               fd_New = VString (ec_AppType b)\<rparr>] else [])
     @ (if \<not> stringSlicesEqual (ec_DataStoreIds a) (ec_DataStoreIds b)
        then [\<lparr>fd_Field = ''dataStoreIds'', fd_Old = VStrings (ec_DataStoreIds a),
               fd_New = VStrings (ec_DataStoreIds b)\<rparr>] else [])
     @ (if \<not> mapsEqual fmtv (ec_CommonConfig a) (ec_CommonConfig b)
        then [\<lparr>fd_Field = ''commonConfig'', fd_Old = VMap (ec_CommonConfig a),
               fd_New = VMap (ec_CommonConfig b)\<rparr>] else [])
     @ (if \<not> compareSearchConfigs H (ec_SearchConfig a) (ec_SearchConfig b)
        then [\<lparr>fd_Field = ''searchConfig'', fd_Old = VSearchConfig (ec_SearchConfig a),
               fd_New = VSearchConfig (ec_SearchConfig b)\<rparr>] else [])"

text \<open>
  \<^verbatim>\<open>diffFeatures\<close> collects the keys of both maps in a set, copies them to a slice and
  sorts the slice: whatever order \<^verbatim>\<open>range\<close> visits them in, the sorted slice is the
  sorted list of the distinct keys.
\<close>

definition diffFeatures :: "string gomap \<Rightarrow> string gomap \<Rightarrow> FeatureDiff list" where
  "diffFeatures a b =
     concat (map (\<lambda>key.
        if mapIndex a key \<noteq> mapIndex b key
        then [\<lparr>Feature = key, ft_Old = mapIndex a key, ft_New = mapIndex b key\<rparr>]
        else []) (sort (remdups (mapKeys a @ mapKeys b))))"

definition diffAgentsFields :: "'v Agent option \<Rightarrow> 'v Agent option \<Rightarrow> string list \<times> bool" where
  "diffAgentsFields current desired =
     (case (current, desired) of
        (Some c, Some d) \<Rightarrow>
          (let updateMask =
                 (if ag_DisplayName c \<noteq> ag_DisplayName d then [''displayName''] else [])
                 @ (if ag_Description c \<noteq> ag_Description d then [''description''] else [])
                 @ (if ag_ReasoningEngine c \<noteq> ag_ReasoningEngine d \<and> ag_ReasoningEngine d \<noteq> []
                    then [''reasoningEngine''] else [])
                 @ (if agentLink c \<noteq> agentLink d \<and> agentLink d \<noteq> []
                    then [''dialogflowAgentDefinition.dialogflowAgent''] else [])
                 @ (if (case ag_Icon c of None \<Rightarrow> [] | Some i \<Rightarrow> icon_URI i)
                         \<noteq> (case ag_Icon d of None \<Rightarrow> [] | Some i \<Rightarrow> icon_URI i)
                       \<or> (case ag_Icon c of None \<Rightarrow> [] | Some i \<Rightarrow> icon_Content i)
                         \<noteq> (case ag_Icon d of None \<Rightarrow> [] | Some i \<Rightarrow> icon_Content i)
                    then [''icon''] else [])
           in (updateMask, length updateMask > 0))
      | _ \<Rightarrow> ([], False))"

text \<open>
  The map the two loops at the head of \<^verbatim>\<open>diffAgents\<close> and \<^verbatim>\<open>syncAgentsWithSnapshot\<close>
  build: a later agent with the same key replaces an earlier one.
\<close>

definition agentMap ::
  "(string \<Rightarrow> string) \<Rightarrow> 'v Agent option list \<Rightarrow> string \<Rightarrow> 'v Agent option option" where
  "agentMap lower agents =
     fold (\<lambda>agent m. m(agentSnapshotKey lower agent \<mapsto> agent)) agents Map.empty"

text \<open>
  \<^verbatim>\<open>diffAgents(current, desired)\<close>. \<open>od\<close> is the order in which \<^verbatim>\<open>range\<close> visits
  \<^verbatim>\<open>desiredMap\<close>, \<open>oc\<close> the order in which it visits \<^verbatim>\<open>currentMap\<close>; a key of the order
  that is not in the map is passed over.
\<close>

definition diffAgents ::
  "(string \<Rightarrow> string) \<Rightarrow> string list \<Rightarrow> string list \<Rightarrow> 'v Agent option list
     \<Rightarrow> 'v Agent option list \<Rightarrow> 'v AgentDiff list" where
  "diffAgents lower od oc current desired =
     (let currentMap = agentMap lower current;
          desiredMap = agentMap lower desired
      in concat (map (\<lambda>key.
            case desiredMap key of
              None \<Rightarrow> []
            | Some desiredAgent \<Rightarrow>
                (case currentMap key of
                   Some existing \<Rightarrow>
                     if snd (diffAgentsFields existing desiredAgent)
                     then [\<lparr>Key = key, ChangeType = AgentDiffUpdated, ad_Old = existing,
                            ad_New = desiredAgent\<rparr>]
                     else []
                 | None \<Rightarrow>
                     [\<lparr>Key = key, ChangeType = AgentDiffAdded, ad_Old = None,
                       ad_New = desiredAgent\<rparr>])) od)
         @ concat (map (\<lambda>key.
            case currentMap key of
              None \<Rightarrow> []
            | Some existing \<Rightarrow>
                (case desiredMap key of
                   None \<Rightarrow>
                     [\<lparr>Key = key, ChangeType = AgentDiffRemoved, ad_Old = existing,
                       ad_New = None\<rparr>]
                 | Some desiredAgent \<Rightarrow> [])) oc))"

text \<open>
  The Go runtime and libraries a call runs against: \<^verbatim>\<open>strings.ToLower\<close>,
  \<^verbatim>\<open>fmt.Sprintf("%v", _)\<close>, the type assertion \<^verbatim>\<open>.(string)\<close>, the value of
  \<^verbatim>\<open>time.Now().UTC().Format(time.RFC3339)\<close>, and the heap.
\<close>

record 'v runtime =
  ToLower :: "string \<Rightarrow> string"
  Sprintf_v :: "'v \<Rightarrow> string"
  AsString :: "'v \<Rightarrow> string option"
  Now :: string
  Heap :: heap

text \<open>
  \<^verbatim>\<open>DiffSnapshots(a, b)\<close>; \<open>od\<close> and \<open>oc\<close> are the two range orders of its call of
  \<^verbatim>\<open>diffAgents\<close>.
\<close>

definition DiffSnapshots ::
  "'v runtime \<Rightarrow> string list \<Rightarrow> string list \<Rightarrow> 'v EngineSnapshot \<Rightarrow> 'v EngineSnapshot
     \<Rightarrow> 'v SnapshotDiff" where
  "DiffSnapshots rt od oc a b =
     \<lparr>MetadataChanges = diffMetadata (sn_Metadata a) (sn_Metadata b),
      EngineChanges = diffEngineConfig (Sprintf_v rt) (Heap rt) (sn_Engine a) (sn_Engine b),
      FeatureChanges = diffFeatures (ec_Features (sn_Engine a)) (ec_Features (sn_Engine b)),
      AgentChanges = diffAgents (ToLower rt) od oc (sn_Agents a) (sn_Agents b)\<rparr>"

subsection \<open>The client and the remote service\<close>

text \<open>
  Modelled from the spec: the declaration of \<^verbatim>\<open>Engine\<close> (the result of
  \<^verbatim>\<open>GetEngineDetails\<close>) is not among the source files; the fields are those that
  \<^verbatim>\<open>snapshot.go\<close> reads, with the types it reads them at.
\<close>

record 'v Engine =
  en_Name :: string
  en_DisplayName :: string
  en_SolutionType :: string
  en_IndustryVertical :: string
  en_AppType :: string
  en_DataStoreIds :: "string list"
  en_CommonConfig :: "'v gomap"
  en_Features :: "string gomap"
  en_SearchEngineConfig :: "addr option"

text \<open>
  A Go \<^verbatim>\<open>error\<close> that is not nil: a \<^verbatim>\<open>*googleapi.Error\<close> with its code and message, an
  error made by \<^verbatim>\<open>fmt.Errorf\<close> from a message alone, or one that wraps another with
  \<^verbatim>\<open>%w\<close>. \<open>NilDereference\<close> stands for the run-time panic of reading a field through a
  nil pointer: it is not a value a caller wraps, the call is abandoned with it.
\<close>

datatype gerror =
  GoogleApiError int string
| Errorf string
| Wrapf string gerror
| NilDereference

definition wrap :: "string \<Rightarrow> gerror \<Rightarrow> gerror" where
  "wrap prefix err = (if err = NilDereference then NilDereference else Wrapf prefix err)"

text \<open>\<^verbatim>\<open>errors.As\<close> walks the chain of wrapped errors to the first \<^verbatim>\<open>*googleapi.Error\<close>.\<close>

fun isNotFound :: "gerror \<Rightarrow> bool" where
  "isNotFound (GoogleApiError code msg) = (code = 404)"
| "isNotFound (Wrapf prefix err) = isNotFound err"
| "isNotFound (Errorf msg) = False"
| "isNotFound NilDereference = False"

text \<open>\<^verbatim>\<open>strings.Split(s, "/")\<close> and \<^verbatim>\<open>strings.Join(xs, ",")\<close>.\<close>

fun splitOn :: "char \<Rightarrow> string \<Rightarrow> string list" where
  "splitOn sep [] = [[]]"
| "splitOn sep (c # cs) =
     (if c = sep then [] # splitOn sep cs
      else (case splitOn sep cs of [] \<Rightarrow> [[c]] | p # ps \<Rightarrow> (c # p) # ps))"

fun joinWith :: "string \<Rightarrow> string list \<Rightarrow> string" where
  "joinWith sep [] = []"
| "joinWith sep [x] = x"
| "joinWith sep (x # y # ys) = x @ sep @ joinWith sep (y # ys)"

definition extractResourceID :: "string \<Rightarrow> string" where
  "extractResourceID resourceName =
     (if resourceName = [] then []
      else (case splitOn (CHR ''/'') resourceName of
              [] \<Rightarrow> resourceName
            | p # ps \<Rightarrow> last (p # ps)))"

definition snapshotVersion :: string where
  "snapshotVersion = ''v1''"

text \<open>
  The requests that write to the remote service. The engine of a create or patch request
  is the \<^verbatim>\<open>GoogleCloudDiscoveryengineV1Engine\<close> the code fills (its search config is a
  fresh struct, its common config holds the company name only); the input of an agent
  request is the \<^verbatim>\<open>AgentCreateInput\<close> or \<^verbatim>\<open>AgentUpdateInput\<close>, which have the same
  fields.
\<close>

record EnginePayload =
  ep_DisplayName :: string
  ep_SolutionType :: string
  ep_IndustryVertical :: string
  ep_AppType :: string
  ep_DataStoreIds :: "string list"
  ep_Features :: "string gomap"
  ep_SearchEngineConfig :: "SearchEngineConfig option"
  ep_CompanyName :: "string option"

definition zeroPayload :: EnginePayload where
  "zeroPayload =
     \<lparr>ep_DisplayName = [], ep_SolutionType = [], ep_IndustryVertical = [], ep_AppType = [],
      ep_DataStoreIds = [], ep_Features = None, ep_SearchEngineConfig = None,
      ep_CompanyName = None\<rparr>"

record AgentInput =
  in_DisplayName :: string
  in_Description :: string
  in_Icon :: "AgentIcon option"
  in_DialogflowAgentDefinition :: "DialogflowAgentDefinition option"
  in_ReasoningEngine :: string

datatype wcall =
  EnginesCreate string string EnginePayload
| EnginesPatch string EnginePayload string
| UpdateEngineFeatures string "string gomap"
| CreateAgent string AgentInput
| UpdateAgent string AgentInput "string list"
| DeleteAgent string

text \<open>
  The client \<^verbatim>\<open>c *GeminiClient\<close>: its configuration, the two reads of the remote service
  (\<^verbatim>\<open>GetEngineDetails\<close> returns a pointer, which may be nil, or an error), and the
  service's answer to a write: \<open>Remote c tr w\<close> is the error of the write \<open>w\<close> issued
  after the writes \<open>tr\<close>, or \<open>None\<close> when it succeeds. The writes are the engine create
  and patch requests (\<^verbatim>\<open>call.Do()\<close>) and the calls of \<^verbatim>\<open>UpdateEngineFeatures\<close>,
  \<^verbatim>\<open>CreateAgent\<close>, \<^verbatim>\<open>UpdateAgent\<close> and \<^verbatim>\<open>DeleteAgent\<close>; what the remote service
  answers is not the code's to decide, so the reads and \<open>Remote\<close> are arbitrary functions.

  Modelled from the spec: \<^verbatim>\<open>GetEngineDetails\<close> and \<^verbatim>\<open>UpdateEngineFeatures\<close> are not
  among the source files; they are the operations \<^verbatim>\<open>GetEngine\<close> (a read, which may report
  not-found) and \<^verbatim>\<open>UpdateFeatures\<close> (a write) that the specification lists among the
  interfaces the core consumes.
\<close>

record 'v GeminiClient =
  cfg_ProjectID :: string
  cfg_Location :: string
  cfg_Collection :: string
  GetEngineDetails :: "string \<Rightarrow> gerror + 'v Engine option"
  ListAgents :: "string \<Rightarrow> gerror + 'v Agent option list"
  Remote :: "wcall list \<Rightarrow> wcall \<Rightarrow> gerror option"

text \<open>
  A function that writes takes the list of writes issued so far and returns it extended,
  next to its Go result.
\<close>

definition issue ::
  "'v GeminiClient \<Rightarrow> wcall list \<Rightarrow> wcall \<Rightarrow> gerror option \<times> wcall list" where
  "issue c tr w = (Remote c tr w, tr @ [w])"

subsection \<open>Restore\<close>

record SnapshotRestoreOptions =
  TargetEngineName :: string
  CreateIfMissing :: bool
  UpdateExisting :: bool
  DryRun :: bool

record 'v SnapshotRestoreResult =
  EngineName :: string
  Created :: bool
  EnginePatched :: bool
  rs_FeatureChanges :: "FeatureDiff list"
  rs_AgentChanges :: "'v AgentDiff list"

definition createEngineFromSnapshot ::
  "'v runtime \<Rightarrow> 'v GeminiClient \<Rightarrow> string \<Rightarrow> 'v EngineConfigSnapshot \<Rightarrow> wcall list
     \<Rightarrow> gerror option \<times> wcall list" where
  "createEngineFromSnapshot rt c engineName cfg tr =
     (let engineID = extractResourceID engineName;
          parent = ''projects/'' @ cfg_ProjectID c @ ''/locations/'' @ cfg_Location c
                   @ ''/collections/'' @ cfg_Collection c;
          engine =
            \<lparr>ep_DisplayName = ec_DisplayName cfg,
             ep_SolutionType = ec_SolutionType cfg,
             ep_IndustryVertical = ec_IndustryVertical cfg,
             ep_AppType = ec_AppType cfg,
             ep_DataStoreIds = ec_DataStoreIds cfg,
             ep_Features = cloneStringMap (ec_Features cfg),
             ep_SearchEngineConfig =
               (case ec_SearchConfig cfg of
                  None \<Rightarrow> None
                | Some p \<Rightarrow>
                    Some \<lparr>SearchTier = SearchTier (deref (Heap rt) p),
                          SearchAddOns = SearchAddOns (deref (Heap rt) p)\<rparr>),
             ep_CompanyName =
               (case mapLookup (ec_CommonConfig cfg) ''companyName'' of
                  None \<Rightarrow> None
                | Some v \<Rightarrow>
                    (case AsString rt v of
                       None \<Rightarrow> None
                     | Some company \<Rightarrow> if company \<noteq> [] then Some company else None))\<rparr>
      in case issue c tr (EnginesCreate parent engineID engine) of
           (Some err, tr') \<Rightarrow> (Some (wrap ''failed to create engine: '' err), tr')
         | (None, tr') \<Rightarrow> (None, tr'))"

text \<open>
  The two variables \<^verbatim>\<open>updateMask\<close> and \<^verbatim>\<open>patch\<close> that \<^verbatim>\<open>patchEngineFromSnapshot\<close>
  fills side by side.
\<close>

definition searchConfigDiffers :: "heap \<Rightarrow> 'v Engine \<Rightarrow> addr \<Rightarrow> bool" where
  "searchConfigDiffers H current p =
     (let currentTier = (case en_SearchEngineConfig current of
                           None \<Rightarrow> [] | Some q \<Rightarrow> SearchTier (deref H q));
          currentAddOns = (case en_SearchEngineConfig current of
                             None \<Rightarrow> [] | Some q \<Rightarrow> SearchAddOns (deref H q))
      in SearchTier (deref H p) \<noteq> currentTier
         \<or> \<not> stringSlicesEqual (SearchAddOns (deref H p)) currentAddOns)"

definition engineUpdateMask ::
  "heap \<Rightarrow> 'v Engine \<Rightarrow> 'v EngineConfigSnapshot \<Rightarrow> string list" where
  "engineUpdateMask H current cfg =
     (if ec_DisplayName cfg \<noteq> [] \<and> ec_DisplayName cfg \<noteq> en_DisplayName current
      then [''displayName''] else [])
     @ (if ec_IndustryVertical cfg \<noteq> [] \<and> ec_IndustryVertical cfg \<noteq> en_IndustryVertical current
        then [''industryVertical''] else [])
     @ (if ec_AppType cfg \<noteq> [] \<and> ec_AppType cfg \<noteq> en_AppType current
        then [''appType''] else [])
     @ (if \<not> stringSlicesEqual (ec_DataStoreIds cfg) (en_DataStoreIds current)
        then [''dataStoreIds''] else [])
     @ (case ec_SearchConfig cfg of
          None \<Rightarrow> []
        | Some p \<Rightarrow> if searchConfigDiffers H current p then [''searchEngineConfig''] else [])"

definition enginePatch ::
  "heap \<Rightarrow> 'v Engine \<Rightarrow> 'v EngineConfigSnapshot \<Rightarrow> EnginePayload" where
  "enginePatch H current cfg =
     zeroPayload
       \<lparr>ep_DisplayName :=
          (if ec_DisplayName cfg \<noteq> [] \<and> ec_DisplayName cfg \<noteq> en_DisplayName current
           then ec_DisplayName cfg else []),
        ep_IndustryVertical :=
          (if ec_IndustryVertical cfg \<noteq> [] \<and> ec_IndustryVertical cfg \<noteq> en_IndustryVertical current
           then ec_IndustryVertical cfg else []),
        ep_AppType :=
          (if ec_AppType cfg \<noteq> [] \<and> ec_AppType cfg \<noteq> en_AppType current
           then ec_AppType cfg else []),
        ep_DataStoreIds :=
          (if \<not> stringSlicesEqual (ec_DataStoreIds cfg) (en_DataStoreIds current)
           then ec_DataStoreIds cfg else []),
        ep_SearchEngineConfig :=
          (case ec_SearchConfig cfg of
             None \<Rightarrow> None
           | Some p \<Rightarrow>
               if searchConfigDiffers H current p
               then Some \<lparr>SearchTier = SearchTier (deref H p),
                          SearchAddOns = SearchAddOns (deref H p)\<rparr>
               else None)\<rparr>"

definition patchEngineFromSnapshot ::
  "'v runtime \<Rightarrow> 'v GeminiClient \<Rightarrow> string \<Rightarrow> 'v Engine option \<Rightarrow> 'v EngineConfigSnapshot
     \<Rightarrow> wcall list \<Rightarrow> gerror option \<times> wcall list" where
  "patchEngineFromSnapshot rt c engineName current cfg tr =
     (case current of
        None \<Rightarrow> (Some (Errorf ''current engine is nil''), tr)
      | Some cur \<Rightarrow>
          if length (engineUpdateMask (Heap rt) cur cfg) = 0 then (None, tr)
          else (case issue c tr
                       (EnginesPatch engineName (enginePatch (Heap rt) cur cfg)
                          (joinWith '','' (engineUpdateMask (Heap rt) cur cfg))) of
                  (Some err, tr') \<Rightarrow> (Some (wrap ''failed to patch engine: '' err), tr')
                | (None, tr') \<Rightarrow> (None, tr')))"

definition applyFeatureSnapshot ::
  "'v GeminiClient \<Rightarrow> string \<Rightarrow> string gomap \<Rightarrow> wcall list \<Rightarrow> gerror option \<times> wcall list" where
  "applyFeatureSnapshot c engineName desired tr =
     (case desired of
        None \<Rightarrow> (None, tr)
      | Some al \<Rightarrow> issue c tr (UpdateEngineFeatures engineName desired))"

definition createAgentFromSnapshot ::
  "'v GeminiClient \<Rightarrow> string \<Rightarrow> 'v Agent option \<Rightarrow> wcall list \<Rightarrow> gerror option \<times> wcall list" where
  "createAgentFromSnapshot c engineName agent tr =
     (case agent of
        None \<Rightarrow> (None, tr)
      | Some a \<Rightarrow>
          if (case ag_DialogflowAgentDefinition a of
                None \<Rightarrow> False | Some d \<Rightarrow> DialogflowAgent d = [])
          then (Some (Errorf (''snapshot agent '' @ ag_DisplayName a
                              @ '' missing dialogflow agent resource'')), tr)
          else
            (let input =
                   \<lparr>in_DisplayName = ag_DisplayName a,
                    in_Description = ag_Description a,
                    in_Icon = (case ag_Icon a of
                                 None \<Rightarrow> None
                               | Some i \<Rightarrow> Some \<lparr>icon_URI = icon_URI i,
                                                  icon_Content = icon_Content i\<rparr>),
                    in_DialogflowAgentDefinition =
                      (case ag_DialogflowAgentDefinition a of
                         None \<Rightarrow> None
                       | Some d \<Rightarrow> Some \<lparr>DialogflowAgent = DialogflowAgent d\<rparr>),
                    in_ReasoningEngine =
                      (if ag_ReasoningEngine a \<noteq> [] then ag_ReasoningEngine a
                       else engineName)\<rparr>
             in case issue c tr (CreateAgent engineName input) of
                  (Some err, tr') \<Rightarrow>
                    (Some (wrap (''failed to create agent '' @ ag_DisplayName a @ '': '') err),
                     tr')
                | (None, tr') \<Rightarrow> (None, tr')))"

definition updateAgentFromSnapshot ::
  "'v GeminiClient \<Rightarrow> string \<Rightarrow> 'v Agent option \<Rightarrow> 'v Agent option \<Rightarrow> string list
     \<Rightarrow> wcall list \<Rightarrow> gerror option \<times> wcall list" where
  "updateAgentFromSnapshot c engineName existing desired updateMask tr =
     (if length updateMask = 0 then (None, tr)
      else (case desired of
              None \<Rightarrow> (Some NilDereference, tr)
            | Some d \<Rightarrow>
                (case existing of
                   None \<Rightarrow> (Some NilDereference, tr)
                 | Some e \<Rightarrow>
                    (let input =
                           \<lparr>in_DisplayName = ag_DisplayName d,
                            in_Description = ag_Description d,
                            in_Icon = (case ag_Icon d of
                                         None \<Rightarrow> None
                                       | Some i \<Rightarrow> Some \<lparr>icon_URI = icon_URI i,
                                                          icon_Content = icon_Content i\<rparr>),
                            in_DialogflowAgentDefinition =
                              (case ag_DialogflowAgentDefinition d of
                                 None \<Rightarrow> None
                               | Some df \<Rightarrow> Some \<lparr>DialogflowAgent = DialogflowAgent df\<rparr>),
                            in_ReasoningEngine = ag_ReasoningEngine d\<rparr>
                     in case issue c tr (UpdateAgent (ag_Name e) input updateMask) of
                          (Some err, tr') \<Rightarrow>
                            (Some (wrap (''failed to update agent '' @ ag_Name e @ '': '') err),
                             tr')
                        | (None, tr') \<Rightarrow> (None, tr')))))"

text \<open>
  The two loops of \<^verbatim>\<open>syncAgentsWithSnapshot\<close>, over the keys of \<^verbatim>\<open>desiredMap\<close> and
  of \<^verbatim>\<open>currentMap\<close> in the order \<^verbatim>\<open>range\<close> visits them. An error ends the function at
  once. \<^verbatim>\<open>existing.Name\<close> in the second loop is read through the pointer stored in the
  map, which is nil when the list held a nil entry.
\<close>

fun syncDesiredLoop ::
  "'v GeminiClient \<Rightarrow> string \<Rightarrow> (string \<Rightarrow> 'v Agent option option)
     \<Rightarrow> (string \<Rightarrow> 'v Agent option option) \<Rightarrow> string list \<Rightarrow> 'v AgentDiff list
     \<Rightarrow> wcall list \<Rightarrow> (gerror + 'v AgentDiff list) \<times> wcall list" where
  "syncDesiredLoop c engineName currentMap desiredMap [] changes tr = (Inr changes, tr)"
| "syncDesiredLoop c engineName currentMap desiredMap (key # keys) changes tr =
     (case desiredMap key of
        None \<Rightarrow> syncDesiredLoop c engineName currentMap desiredMap keys changes tr
      | Some desiredAgent \<Rightarrow>
          (case currentMap key of
             Some existing \<Rightarrow>
               if snd (diffAgentsFields existing desiredAgent)
               then (case updateAgentFromSnapshot c engineName existing desiredAgent
                            (fst (diffAgentsFields existing desiredAgent)) tr of
                       (Some err, tr') \<Rightarrow> (Inl err, tr')
                     | (None, tr') \<Rightarrow>
                         syncDesiredLoop c engineName currentMap desiredMap keys
                           (changes @ [\<lparr>Key = key, ChangeType = AgentDiffUpdated,
                                        ad_Old = existing, ad_New = desiredAgent\<rparr>]) tr')
               else syncDesiredLoop c engineName currentMap desiredMap keys changes tr
           | None \<Rightarrow>
               (case createAgentFromSnapshot c engineName desiredAgent tr of
                  (Some err, tr') \<Rightarrow> (Inl err, tr')
                | (None, tr') \<Rightarrow>
                    syncDesiredLoop c engineName currentMap desiredMap keys
                      (changes @ [\<lparr>Key = key, ChangeType = AgentDiffAdded, ad_Old = None,
                                   ad_New = desiredAgent\<rparr>]) tr')))"

fun syncCurrentLoop ::
  "'v GeminiClient \<Rightarrow> (string \<Rightarrow> 'v Agent option option)
     \<Rightarrow> (string \<Rightarrow> 'v Agent option option) \<Rightarrow> string list \<Rightarrow> 'v AgentDiff list
     \<Rightarrow> wcall list \<Rightarrow> (gerror + 'v AgentDiff list) \<times> wcall list" where
  "syncCurrentLoop c currentMap desiredMap [] changes tr = (Inr changes, tr)"
| "syncCurrentLoop c currentMap desiredMap (key # keys) changes tr =
     (case currentMap key of
        None \<Rightarrow> syncCurrentLoop c currentMap desiredMap keys changes tr
      | Some existing \<Rightarrow>
          (case desiredMap key of
             Some desiredAgent \<Rightarrow> syncCurrentLoop c currentMap desiredMap keys changes tr
           | None \<Rightarrow>
               (case existing of
                  None \<Rightarrow> (Inl NilDereference, tr)
                | Some e \<Rightarrow>
                    (case issue c tr (DeleteAgent (ag_Name e)) of
                       (Some err, tr') \<Rightarrow>
                         (Inl (wrap (''failed to delete agent '' @ ag_Name e @ '': '') err), tr')
                     | (None, tr') \<Rightarrow>
                         syncCurrentLoop c currentMap desiredMap keys
                           (changes @ [\<lparr>Key = key, ChangeType = AgentDiffRemoved,
                                        ad_Old = existing, ad_New = None\<rparr>]) tr'))))"

definition syncAgentsWithSnapshot ::
  "(string \<Rightarrow> string) \<Rightarrow> 'v GeminiClient \<Rightarrow> string \<Rightarrow> string list \<Rightarrow> string list
     \<Rightarrow> 'v Agent option list \<Rightarrow> 'v Agent option list \<Rightarrow> wcall list
     \<Rightarrow> (gerror + 'v AgentDiff list) \<times> wcall list" where
  "syncAgentsWithSnapshot lower c engineName od oc current desired tr =
     (let currentMap = agentMap lower current;
          desiredMap = agentMap lower desired
      in case syncDesiredLoop c engineName currentMap desiredMap od [] tr of
           (Inl err, tr') \<Rightarrow> (Inl err, tr')
         | (Inr changes, tr') \<Rightarrow> syncCurrentLoop c currentMap desiredMap oc changes tr')"

definition existingEngineFeatures :: "'v Engine option \<Rightarrow> string gomap" where
  "existingEngineFeatures engine =
     (case engine of None \<Rightarrow> Some [] | Some e \<Rightarrow> cloneStringMap (en_Features e))"

text \<open>
  The snapshot of the live engine that \<^verbatim>\<open>RestoreEngineSnapshot\<close> and
  \<^verbatim>\<open>DiffSnapshotWithEngine\<close> build to diff against (\<^verbatim>\<open>currentSnapshot\<close> in the latter).
\<close>

definition currentSnapshot ::
  "'v runtime \<Rightarrow> 'v Engine \<Rightarrow> 'v Agent option list \<Rightarrow> 'v EngineSnapshot" where
  "currentSnapshot rt engine agents =
     \<lparr>sn_Metadata =
        \<lparr>md_Version = snapshotVersion,
         md_OriginalEngineName = en_Name engine,
         md_OriginalEngineID = extractResourceID (en_Name engine),
         md_SourceProjectID = [],
         md_SourceLocation = [],
         md_SourceCollection = [],
         md_TakenAt = Now rt,
         md_DisplayName = en_DisplayName engine,
         md_Description = [],
         md_Notes = []\<rparr>,
      sn_Engine =
        \<lparr>ec_DisplayName = en_DisplayName engine,
         ec_SolutionType = en_SolutionType engine,
         ec_IndustryVertical = en_IndustryVertical engine,
         ec_AppType = en_AppType engine,
         ec_DataStoreIds = en_DataStoreIds engine,
         ec_CommonConfig = cloneStringInterfaceMap (en_CommonConfig engine),
         ec_Features = cloneStringMap (en_Features engine),
         ec_SearchConfig = en_SearchEngineConfig engine\<rparr>,
      sn_Agents = cloneAgents agents\<rparr>"

text \<open>
  The orders of the four \<^verbatim>\<open>range\<close> loops over agent maps that one call of
  \<^verbatim>\<open>RestoreEngineSnapshot\<close> runs: two in the preview's \<^verbatim>\<open>diffAgents\<close>, two in
  \<^verbatim>\<open>syncAgentsWithSnapshot\<close>.
\<close>

record rangeOrders =
  pv_desired :: "string list"
  pv_current :: "string list"
  sy_desired :: "string list"
  sy_current :: "string list"

text \<open>
  What a call of \<^verbatim>\<open>RestoreEngineSnapshot\<close> returns (result pointer, diff, error) and the
  writes it has issued.
\<close>

record 'v RestoreReturn =
  ret_Result :: "'v SnapshotRestoreResult option"
  ret_Diff :: "'v SnapshotDiff"
  ret_Err :: "gerror option"
  ret_Writes :: "wcall list"

text \<open>Lines 223 to 240: the target engine and its agents, or the error returned.\<close>

definition resolveTarget ::
  "'v GeminiClient \<Rightarrow> SnapshotRestoreOptions
     \<Rightarrow> gerror + ('v Engine option \<times> 'v Agent option list)" where
  "resolveTarget c opts =
     (case GetEngineDetails c (TargetEngineName opts) of
        Inl err \<Rightarrow>
          if \<not> isNotFound err then Inl (wrap ''failed to get target engine: '' err)
          else if \<not> CreateIfMissing opts
          then Inl (Errorf (''engine '' @ TargetEngineName opts
                            @ '' not found and create option disabled''))
          else Inr (None, [])
      | Inr engine \<Rightarrow>
          (case ListAgents c (TargetEngineName opts) of
             Inl err \<Rightarrow> Inl (wrap ''failed to list agents for target engine: '' err)
           | Inr agents \<Rightarrow> Inr (engine, agents)))"

text \<open>Lines 242 to 272: \<^verbatim>\<open>currentDiff\<close>.\<close>

definition previewDiff ::
  "'v runtime \<Rightarrow> rangeOrders \<Rightarrow> 'v EngineSnapshot \<Rightarrow> 'v Engine option
     \<Rightarrow> 'v Agent option list \<Rightarrow> 'v SnapshotDiff" where
  "previewDiff rt ro snapshot existingEngine existingAgents =
     (case existingEngine of
        Some engine \<Rightarrow>
          DiffSnapshots rt (pv_desired ro) (pv_current ro) snapshot
            (currentSnapshot rt engine existingAgents)
      | None \<Rightarrow>
          \<lparr>MetadataChanges = [],
           EngineChanges = [\<lparr>fd_Field = ''engine'', fd_Old = VString ''missing'',
                             fd_New = VString ''will be created''\<rparr>],
           FeatureChanges = diffFeatures (Some []) (ec_Features (sn_Engine snapshot)),
           AgentChanges = diffAgents (ToLower rt) (pv_desired ro) (pv_current ro) []
                            (sn_Agents snapshot)\<rparr>)"

text \<open>
  Lines 282 to 295: the engine step. It returns the flags \<^verbatim>\<open>Created\<close> and
  \<^verbatim>\<open>EnginePatched\<close> of the result, or the error.
\<close>

definition engineStep ::
  "'v runtime \<Rightarrow> 'v GeminiClient \<Rightarrow> 'v EngineSnapshot \<Rightarrow> SnapshotRestoreOptions
     \<Rightarrow> 'v Engine option \<Rightarrow> (gerror + bool \<times> bool) \<times> wcall list" where
  "engineStep rt c snapshot opts existingEngine =
     (case existingEngine of
        None \<Rightarrow>
          if \<not> CreateIfMissing opts
          then (Inl (Errorf (''engine '' @ TargetEngineName opts @ '' not found'')), [])
          else (case createEngineFromSnapshot rt c (TargetEngineName opts)
                       (sn_Engine snapshot) [] of
                  (Some err, tr) \<Rightarrow> (Inl (wrap ''failed to create engine: '' err), tr)
                | (None, tr) \<Rightarrow> (Inr (True, False), tr))
      | Some engine \<Rightarrow>
          if UpdateExisting opts
          then (case patchEngineFromSnapshot rt c (TargetEngineName opts) existingEngine
                       (sn_Engine snapshot) [] of
                  (Some err, tr) \<Rightarrow> (Inl (wrap ''failed to patch engine: '' err), tr)
                | (None, tr) \<Rightarrow> (Inr (False, True), tr))
          else (Inr (False, False), []))"

text \<open>Lines 278 to 308: what the call does when it is not a dry run.\<close>

definition applySnapshot ::
  "'v runtime \<Rightarrow> rangeOrders \<Rightarrow> 'v GeminiClient \<Rightarrow> 'v EngineSnapshot
     \<Rightarrow> SnapshotRestoreOptions \<Rightarrow> 'v Engine option \<Rightarrow> 'v Agent option list
     \<Rightarrow> 'v SnapshotDiff \<Rightarrow> 'v RestoreReturn" where
  "applySnapshot rt ro c snapshot opts existingEngine existingAgents currentDiff =
     (case engineStep rt c snapshot opts existingEngine of
        (Inl err, tr1) \<Rightarrow>
          \<lparr>ret_Result = None, ret_Diff = currentDiff, ret_Err = Some err, ret_Writes = tr1\<rparr>
      | (Inr (created, patched), tr1) \<Rightarrow>
          (case applyFeatureSnapshot c (TargetEngineName opts)
                  (ec_Features (sn_Engine snapshot)) tr1 of
             (Some err, tr2) \<Rightarrow>
               \<lparr>ret_Result = None, ret_Diff = currentDiff,
                ret_Err = Some (wrap ''failed to apply feature snapshot: '' err),
                ret_Writes = tr2\<rparr>
           | (None, tr2) \<Rightarrow>
               (case syncAgentsWithSnapshot (ToLower rt) c (TargetEngineName opts)
                       (sy_desired ro) (sy_current ro) existingAgents (sn_Agents snapshot)
                       tr2 of
                  (Inl err, tr3) \<Rightarrow>
                    \<lparr>ret_Result = None, ret_Diff = currentDiff,
                     ret_Err = Some (wrap ''failed to sync agents: '' err),
                     ret_Writes = tr3\<rparr>
                | (Inr agentChanges, tr3) \<Rightarrow>
                    \<lparr>ret_Result =
                       Some \<lparr>EngineName = TargetEngineName opts,
                             Created = created,
                             EnginePatched = patched,
                             rs_FeatureChanges =
                               diffFeatures (existingEngineFeatures existingEngine)
                                 (ec_Features (sn_Engine snapshot)),
                             rs_AgentChanges = agentChanges\<rparr>,
                     ret_Diff = currentDiff, ret_Err = None, ret_Writes = tr3\<rparr>)))"

definition RestoreEngineSnapshot ::
  "'v runtime \<Rightarrow> rangeOrders \<Rightarrow> 'v GeminiClient \<Rightarrow> 'v EngineSnapshot option
     \<Rightarrow> SnapshotRestoreOptions \<Rightarrow> 'v RestoreReturn" where
  "RestoreEngineSnapshot rt ro c snapshot opts =
     (case snapshot of
        None \<Rightarrow>
          \<lparr>ret_Result = None, ret_Diff = zeroDiff,
           ret_Err = Some (Errorf ''snapshot is nil''), ret_Writes = []\<rparr>
      | Some snap \<Rightarrow>
          if TargetEngineName opts = []
          then \<lparr>ret_Result = None, ret_Diff = zeroDiff,
                ret_Err = Some (Errorf ''target engine name is required''),
                ret_Writes = []\<rparr>
          else (case resolveTarget c opts of
                  Inl err \<Rightarrow>
                    \<lparr>ret_Result = None, ret_Diff = zeroDiff, ret_Err = Some err,
                     ret_Writes = []\<rparr>
                | Inr (existingEngine, existingAgents) \<Rightarrow>
                    if DryRun opts
                    then \<lparr>ret_Result = None,
                          ret_Diff = previewDiff rt ro snap existingEngine existingAgents,
                          ret_Err = None, ret_Writes = []\<rparr>
                    else applySnapshot rt ro c snap opts existingEngine existingAgents
                           (previewDiff rt ro snap existingEngine existingAgents)))"

subsection \<open>Capture\<close>

text \<open>
  \<^verbatim>\<open>CreateEngineSnapshot\<close>: two reads, then the snapshot. The slice of data-store ids and
  the two maps are copied into fresh ones; \<^verbatim>\<open>SearchConfig\<close> is assigned the pointer
  \<^verbatim>\<open>engine.SearchEngineConfig\<close> itself, the same address.
\<close>

definition CreateEngineSnapshot ::
  "'v runtime \<Rightarrow> 'v GeminiClient \<Rightarrow> string \<Rightarrow> gerror + 'v EngineSnapshot" where
  "CreateEngineSnapshot rt c engineName =
     (case GetEngineDetails c engineName of
        Inl err \<Rightarrow> Inl (wrap ''failed to get engine details: '' err)
      | Inr engine \<Rightarrow>
          (case ListAgents c engineName of
             Inl err \<Rightarrow> Inl (wrap ''failed to list agents: '' err)
           | Inr agents \<Rightarrow>
               (case engine of
                  None \<Rightarrow> Inl NilDereference
                | Some e \<Rightarrow>
                    Inr \<lparr>sn_Metadata =
                           \<lparr>md_Version = snapshotVersion,
                            md_OriginalEngineName = en_Name e,
                            md_OriginalEngineID = extractResourceID (en_Name e),
                            md_SourceProjectID = cfg_ProjectID c,
                            md_SourceLocation = cfg_Location c,
                            md_SourceCollection = cfg_Collection c,
                            md_TakenAt = Now rt,
                            md_DisplayName = en_DisplayName e,
                            md_Description = [],
                            md_Notes = []\<rparr>,
                         sn_Engine =
                           \<lparr>ec_DisplayName = en_DisplayName e,
                            ec_SolutionType = en_SolutionType e,
                            ec_IndustryVertical = en_IndustryVertical e,
                            ec_AppType = en_AppType e,
                            ec_DataStoreIds = en_DataStoreIds e,
                            ec_CommonConfig = cloneStringInterfaceMap (en_CommonConfig e),
                            ec_Features = cloneStringMap (en_Features e),
                            ec_SearchConfig = en_SearchEngineConfig e\<rparr>,
                         sn_Agents = cloneAgents agents\<rparr>)))"

subsection \<open>Vocabulary of the statements\<close>

text \<open>A change with its old and new payloads exchanged.\<close>

definition swapField :: "'v FieldDiff \<Rightarrow> 'v FieldDiff" where
  "swapField d = \<lparr>fd_Field = fd_Field d, fd_Old = fd_New d, fd_New = fd_Old d\<rparr>"

definition swapFeature :: "FeatureDiff \<Rightarrow> FeatureDiff" where
  "swapFeature d = \<lparr>Feature = Feature d, ft_Old = ft_New d, ft_New = ft_Old d\<rparr>"

fun swapKind :: "AgentDiffKind \<Rightarrow> AgentDiffKind" where
  "swapKind AgentDiffAdded = AgentDiffRemoved"
| "swapKind AgentDiffRemoved = AgentDiffAdded"
| "swapKind AgentDiffUpdated = AgentDiffUpdated"

definition swapAgentDiff :: "'v AgentDiff \<Rightarrow> 'v AgentDiff" where
  "swapAgentDiff d =
     \<lparr>Key = Key d, ChangeType = swapKind (ChangeType d), ad_Old = ad_New d, ad_New = ad_Old d\<rparr>"

text \<open>
  Two agents agree on their links when the reasoning-engine references are equal or both
  non-empty, and the Dialogflow links are equal or both non-empty: the two fields that
  \<^verbatim>\<open>diffAgentsFields\<close> compares only when the desired side is non-empty.
\<close>

definition linksAgree :: "'v Agent option \<Rightarrow> 'v Agent option \<Rightarrow> bool" where
  "linksAgree x y =
     (case (x, y) of
        (Some a, Some b) \<Rightarrow>
          (ag_ReasoningEngine a = ag_ReasoningEngine b
             \<or> ag_ReasoningEngine a \<noteq> [] \<and> ag_ReasoningEngine b \<noteq> [])
          \<and> (agentLink a = agentLink b \<or> agentLink a \<noteq> [] \<and> agentLink b \<noteq> [])
      | _ \<Rightarrow> True)"

text \<open>The agent changes between two agent maps, as a predicate on a change.\<close>

definition isChange ::
  "(string \<Rightarrow> 'v Agent option option) \<Rightarrow> (string \<Rightarrow> 'v Agent option option) \<Rightarrow> 'v AgentDiff \<Rightarrow> bool" where
  "isChange currentMap desiredMap x =
     (case ChangeType x of
        AgentDiffUpdated \<Rightarrow>
          currentMap (Key x) = Some (ad_Old x) \<and> desiredMap (Key x) = Some (ad_New x)
          \<and> snd (diffAgentsFields (ad_Old x) (ad_New x))
      | AgentDiffAdded \<Rightarrow>
          currentMap (Key x) = None \<and> desiredMap (Key x) = Some (ad_New x) \<and> ad_Old x = None
      | AgentDiffRemoved \<Rightarrow>
          currentMap (Key x) = Some (ad_Old x) \<and> desiredMap (Key x) = None \<and> ad_New x = None)"

text \<open>
  The value a snapshot holds for the field a change names (the symbolic names that
  \<^verbatim>\<open>diffMetadata\<close> and \<^verbatim>\<open>diffEngineConfig\<close> emit).
\<close>

definition metadataField :: "string \<Rightarrow> SnapshotMetadata \<Rightarrow> 'v fieldval" where
  "metadataField f m =
     (if f = ''displayName'' then VString (md_DisplayName m)
      else if f = ''description'' then VString (md_Description m)
      else VString (md_Notes m))"

definition engineField :: "string \<Rightarrow> 'v EngineConfigSnapshot \<Rightarrow> 'v fieldval" where
  "engineField f cfg =
     (if f = ''displayName'' then VString (ec_DisplayName cfg)
      else if f = ''solutionType'' then VString (ec_SolutionType cfg)
      else if f = ''industryVertical'' then VString (ec_IndustryVertical cfg)
      else if f = ''appType'' then VString (ec_AppType cfg)
      else if f = ''dataStoreIds'' then VStrings (ec_DataStoreIds cfg)
      else if f = ''commonConfig'' then VMap (ec_CommonConfig cfg)
      else VSearchConfig (ec_SearchConfig cfg))"

text \<open>Kinds of writes.\<close>

definition isEnginesPatch :: "wcall \<Rightarrow> bool" where
  "isEnginesPatch w = (case w of EnginesPatch name patch updateMask \<Rightarrow> True | _ \<Rightarrow> False)"

definition isAgentWrite :: "wcall \<Rightarrow> bool" where
  "isAgentWrite w =
     (case w of
        CreateAgent name input \<Rightarrow> True
      | UpdateAgent name input updateMask \<Rightarrow> True
      | DeleteAgent name \<Rightarrow> True
      | _ \<Rightarrow> False)"

text \<open>
  What a holder of the engine that \<^verbatim>\<open>GetEngineDetails\<close> returned does to the heap with
  the assignment \<^verbatim>\<open>engine.SearchEngineConfig.SearchTier = tier\<close>, and the search config a
  snapshot holds, read through its pointer.
\<close>

definition setSearchTier :: "heap \<Rightarrow> 'v Engine \<Rightarrow> string \<Rightarrow> heap" where
  "setSearchTier H engine tier =
     (case en_SearchEngineConfig engine of
        None \<Rightarrow> H
      | Some p \<Rightarrow> H(p \<mapsto> (deref H p)\<lparr>SearchTier := tier\<rparr>))"

definition snapshotSearchConfig :: "heap \<Rightarrow> 'v EngineSnapshot \<Rightarrow> SearchEngineConfig option" where
  "snapshotSearchConfig H snapshot = map_option (deref H) (ec_SearchConfig (sn_Engine snapshot))"

subsection \<open>Concrete inputs\<close>

text \<open>
  Go zero values, and the inputs the theorems are evaluated at: a remote service that
  holds one engine, under the name \<open>exEngineName\<close>, answers not-found (code 404) for any
  other name, lists the given agents and accepts every write; a snapshot that agrees with
  that engine in every engine field; and agents named Helper and Extra.
\<close>

definition zeroMetadata :: SnapshotMetadata where
  "zeroMetadata =
     \<lparr>md_Version = [], md_OriginalEngineName = [], md_OriginalEngineID = [],
      md_SourceProjectID = [], md_SourceLocation = [], md_SourceCollection = [],
      md_TakenAt = [], md_DisplayName = [], md_Description = [], md_Notes = []\<rparr>"

definition zeroEngineConfig :: "'v EngineConfigSnapshot" where
  "zeroEngineConfig =
     \<lparr>ec_DisplayName = [], ec_SolutionType = [], ec_IndustryVertical = [], ec_AppType = [],
      ec_DataStoreIds = [], ec_CommonConfig = None, ec_Features = None, ec_SearchConfig = None\<rparr>"

definition zeroSnapshot :: "'v EngineSnapshot" where
  "zeroSnapshot = \<lparr>sn_Metadata = zeroMetadata, sn_Engine = zeroEngineConfig, sn_Agents = []\<rparr>"

definition exRuntime :: "string runtime" where
  "exRuntime =
     \<lparr>ToLower = asciiLower, Sprintf_v = (\<lambda>v. v), AsString = Some,
      Now = ''2025-01-01T00:00:00Z'', Heap = Map.empty\<rparr>"

definition exEngineName :: string where
  "exEngineName = ''projects/p/locations/global/collections/default_collection/engines/app''"

definition exEngineOf :: "string gomap \<Rightarrow> string Engine" where
  "exEngineOf feats =
     \<lparr>en_Name = exEngineName, en_DisplayName = ''App'', en_SolutionType = ''SOLUTION_TYPE_SEARCH'',
      en_IndustryVertical = ''GENERIC'', en_AppType = ''APP_TYPE_INTRANET'',
      en_DataStoreIds = [''ds1''], en_CommonConfig = None, en_Features = feats,
      en_SearchEngineConfig = None\<rparr>"

definition exClientOf :: "string gomap \<Rightarrow> string Agent option list \<Rightarrow> string GeminiClient" where
  "exClientOf feats agents =
     \<lparr>cfg_ProjectID = ''p'', cfg_Location = ''global'', cfg_Collection = ''default_collection'',
      GetEngineDetails = (\<lambda>name. if name = exEngineName then Inr (Some (exEngineOf feats))
                                  else Inl (GoogleApiError 404 ''not found'')),
      ListAgents = (\<lambda>name. Inr agents),
      Remote = (\<lambda>tr w. None)\<rparr>"

definition exSnapshotOf :: "string gomap \<Rightarrow> string Agent option list \<Rightarrow> string EngineSnapshot" where
  "exSnapshotOf feats agents =
     \<lparr>sn_Metadata = zeroMetadata\<lparr>md_DisplayName := ''App''\<rparr>,
      sn_Engine =
        \<lparr>ec_DisplayName = ''App'', ec_SolutionType = ''SOLUTION_TYPE_SEARCH'',
         ec_IndustryVertical = ''GENERIC'', ec_AppType = ''APP_TYPE_INTRANET'',
         ec_DataStoreIds = [''ds1''], ec_CommonConfig = None,
         ec_Features = feats, ec_SearchConfig = None\<rparr>,
      sn_Agents = agents\<rparr>"

definition exOpts :: "bool \<Rightarrow> bool \<Rightarrow> bool \<Rightarrow> SnapshotRestoreOptions" where
  "exOpts create update dry =
     \<lparr>TargetEngineName = exEngineName, CreateIfMissing = create, UpdateExisting = update,
      DryRun = dry\<rparr>"

definition exOrdersOf :: "string list \<Rightarrow> rangeOrders" where
  "exOrdersOf ks = \<lparr>pv_desired = ks, pv_current = ks, sy_desired = ks, sy_current = ks\<rparr>"

definition exGalleryOn :: "string gomap" where
  "exGalleryOn = Some [(''agent-gallery'', ''ON'')]"

definition exLiveFeatures :: "string gomap" where
  "exLiveFeatures = Some [(''agent-gallery'', ''OFF''), (''prompt-gallery'', ''ON'')]"

definition exHelperWithEngine :: "string Agent" where
  "exHelperWithEngine = zeroAgent\<lparr>ag_DisplayName := ''Helper'', ag_ReasoningEngine := ''re-1''\<rparr>"

definition exHelperPlain :: "string Agent" where
  "exHelperPlain = zeroAgent\<lparr>ag_DisplayName := ''Helper''\<rparr>"

definition exHelperLive :: "string Agent" where
  "exHelperLive =
     zeroAgent\<lparr>ag_Name := exEngineName @ ''/assistants/default_assistant/agents/1'',
               ag_DisplayName := ''Helper''\<rparr>"

definition exHelperOld :: "string Agent" where
  "exHelperOld = zeroAgent\<lparr>ag_DisplayName := ''Helper'', ag_Description := ''old''\<rparr>"

definition exHelperNew :: "string Agent" where
  "exHelperNew = zeroAgent\<lparr>ag_DisplayName := ''Helper'', ag_Description := ''new''\<rparr>"

definition exExtra :: "string Agent" where
  "exExtra = zeroAgent\<lparr>ag_DisplayName := ''Extra''\<rparr>"

definition exSnapshotA :: "string EngineSnapshot" where
  "exSnapshotA = zeroSnapshot\<lparr>sn_Agents := [Some exHelperWithEngine]\<rparr>"

definition exSnapshotB :: "string EngineSnapshot" where
  "exSnapshotB = zeroSnapshot\<lparr>sn_Agents := [Some exHelperPlain]\<rparr>"

definition exSnapshotC :: "string EngineSnapshot" where
  "exSnapshotC =
     \<lparr>sn_Metadata = zeroMetadata\<lparr>md_Notes := ''before''\<rparr>,
      sn_Engine = zeroEngineConfig\<lparr>ec_DisplayName := ''App'',
                    ec_Features := Some [(''agent-gallery'', ''ON'')]\<rparr>,
      sn_Agents = [Some exHelperOld, Some exExtra]\<rparr>"

definition exSnapshotD :: "string EngineSnapshot" where
  "exSnapshotD =
     \<lparr>sn_Metadata = zeroMetadata\<lparr>md_Notes := ''after''\<rparr>,
      sn_Engine = zeroEngineConfig\<lparr>ec_DisplayName := ''App two'',
                    ec_Features := Some [(''agent-gallery'', ''OFF''), (''prompt-gallery'', ''ON'')]\<rparr>,
      sn_Agents = [Some exHelperNew]\<rparr>"

definition exHeap :: heap where
  "exHeap = [0 \<mapsto> \<lparr>SearchTier = ''SEARCH_TIER_STANDARD'', SearchAddOns = []\<rparr>]"

definition exSearchEngine :: "string Engine" where
  "exSearchEngine = (exEngineOf None)\<lparr>en_SearchEngineConfig := Some 0\<rparr>"

definition exSearchClient :: "string GeminiClient" where
  "exSearchClient = (exClientOf None [])\<lparr>GetEngineDetails := (\<lambda>name. Inr (Some exSearchEngine))\<rparr>"

definition exGoneOpts :: SnapshotRestoreOptions where
  "exGoneOpts =
     \<lparr>TargetEngineName = ''projects/p/locations/global/collections/default_collection/engines/gone'',
      CreateIfMissing = False, UpdateExisting = True, DryRun = False\<rparr>"

section \<open>Theorems\<close>

subsection \<open>Facts about the helpers\<close>

lemma stringSlicesEqual_iff: "stringSlicesEqual a b \<longleftrightarrow> a = b"
  by (auto simp: stringSlicesEqual_def list_all_iff intro: nth_equalityI)

lemma cloneStringMap_id: "cloneStringMap m = m"
  by (cases m) (simp_all add: cloneStringMap_def)

lemma cloneStringInterfaceMap_id: "cloneStringInterfaceMap m = m"
  by (cases m) (simp_all add: cloneStringInterfaceMap_def)

lemma cloneAgents_id: "None \<notin> set agents \<Longrightarrow> cloneAgents agents = agents"
proof (induction agents)
  case Nil
  show ?case by (simp add: cloneAgents_def)
next
  case (Cons x xs)
  then obtain a where a: "x = Some a" by (cases x) auto
  have "(case ag_Icon a of None \<Rightarrow> None | Some icon \<Rightarrow> Some icon) = ag_Icon a"
    by (cases "ag_Icon a") simp_all
  moreover have "(case ag_DialogflowAgentDefinition a of None \<Rightarrow> None | Some def \<Rightarrow> Some def)
                 = ag_DialogflowAgentDefinition a"
    by (cases "ag_DialogflowAgentDefinition a") simp_all
  ultimately show ?case
    using Cons a by (simp add: cloneAgents_def)
qed

lemma sorted_keys_commute: "sort (remdups (xs @ ys)) = sort (remdups (ys @ xs))"
proof -
  have "sort (remdups (xs @ ys)) = sorted_list_of_set (set (xs @ ys))"
    by (simp only: sorted_list_of_set_sort_remdups)
  also have "set (xs @ ys) = set (ys @ xs)" by auto
  also have "sorted_list_of_set (set (ys @ xs)) = sort (remdups (ys @ xs))"
    by (simp only: sorted_list_of_set_sort_remdups)
  finally show ?thesis .
qed

lemma concat_map_swap:
  "(\<And>k. g k = map h (f k)) \<Longrightarrow> concat (map g ks) = map h (concat (map f ks))"
  by (induction ks) simp_all

lemma diffFeatures_swap: "diffFeatures b a = map swapFeature (diffFeatures a b)"
  unfolding diffFeatures_def sorted_keys_commute [of "mapKeys b" "mapKeys a"]
  by (rule concat_map_swap) (simp add: swapFeature_def)

lemma diffFeatures_orientation:
  "fc \<in> set (diffFeatures a b)
   \<Longrightarrow> ft_Old fc = mapIndex a (Feature fc) \<and> ft_New fc = mapIndex b (Feature fc)"
  by (auto simp: diffFeatures_def split: if_splits)

lemma mapKeys_set: "set (mapKeys m) = {k. mapLookup m k \<noteq> None}"
  by (cases m) (auto simp: mapKeys_def mapLookup_def map_of_eq_None_iff)

lemma mapKeys_distinct: "distinct (mapKeys m)"
  by (cases m) (auto simp: mapKeys_def)

lemma mapsEqual_iff:
  "mapsEqual fmtv a b \<longleftrightarrow>
     (\<forall>k. map_option fmtv (mapLookup a k) = map_option fmtv (mapLookup b k))"
proof
  assume e: "mapsEqual fmtv a b"
  then have len: "mapLen a = mapLen b"
    by (simp add: mapsEqual_def split: if_splits)
  from e have every: "\<forall>k\<in>set (mapKeys a). case mapLookup a k of None \<Rightarrow> True
        | Some v \<Rightarrow> (case mapLookup b k of None \<Rightarrow> False | Some bv \<Rightarrow> fmtv v = fmtv bv)"
    by (simp add: mapsEqual_def list_all_iff split: if_splits)
  have sub: "\<exists>v bv. mapLookup a k = Some v \<and> mapLookup b k = Some bv \<and> fmtv v = fmtv bv"
    if "k \<in> set (mapKeys a)" for k
  proof -
    from that obtain v where v: "mapLookup a k = Some v"
      by (auto simp: mapKeys_set)
    from every that v show ?thesis
      by (fastforce split: option.splits)
  qed
  then have "set (mapKeys a) \<subseteq> set (mapKeys b)"
    by (auto simp: mapKeys_set)
  moreover have "card (set (mapKeys a)) = card (set (mapKeys b))"
    using len by (simp add: mapLen_def distinct_card mapKeys_distinct)
  ultimately have eq: "set (mapKeys a) = set (mapKeys b)"
    by (simp add: card_subset_eq)
  show "\<forall>k. map_option fmtv (mapLookup a k) = map_option fmtv (mapLookup b k)"
  proof
    fix k
    show "map_option fmtv (mapLookup a k) = map_option fmtv (mapLookup b k)"
    proof (cases "k \<in> set (mapKeys a)")
      case True
      from sub [OF True] show ?thesis by auto
    next
      case False
      with eq have "k \<notin> set (mapKeys b)" by simp
      with False show ?thesis by (simp add: mapKeys_set)
    qed
  qed
next
  assume r: "\<forall>k. map_option fmtv (mapLookup a k) = map_option fmtv (mapLookup b k)"
  have "\<And>k. mapLookup a k = None \<longleftrightarrow> mapLookup b k = None"
    using r by (metis map_option_is_None)
  then have "set (mapKeys a) = set (mapKeys b)"
    by (simp add: mapKeys_set)
  then have "mapLen a = mapLen b"
    by (metis mapLen_def distinct_card mapKeys_distinct)
  moreover have "list_all (\<lambda>k. case mapLookup a k of None \<Rightarrow> True
        | Some v \<Rightarrow> (case mapLookup b k of None \<Rightarrow> False | Some bv \<Rightarrow> fmtv v = fmtv bv))
       (mapKeys a)"
    unfolding list_all_iff
  proof
    fix k assume "k \<in> set (mapKeys a)"
    from r have "map_option fmtv (mapLookup a k) = map_option fmtv (mapLookup b k)" by simp
    then show "case mapLookup a k of None \<Rightarrow> True
        | Some v \<Rightarrow> (case mapLookup b k of None \<Rightarrow> False | Some bv \<Rightarrow> fmtv v = fmtv bv)"
      by (auto split: option.splits)
  qed
  ultimately show "mapsEqual fmtv a b"
    by (simp add: mapsEqual_def)
qed

lemma mapsEqual_sym: "mapsEqual fmtv a b = mapsEqual fmtv b a"
  unfolding mapsEqual_iff by (auto simp: eq_commute)

lemma compareSearchConfigs_sym: "compareSearchConfigs H a b = compareSearchConfigs H b a"
  by (auto simp: compareSearchConfigs_def stringSlicesEqual_iff split: option.splits)

lemma diffMetadata_swap: "diffMetadata b a = map swapField (diffMetadata a b)"
  by (simp add: diffMetadata_def swapField_def)

lemma diffEngineConfig_swap:
  "diffEngineConfig fmtv H b a = map swapField (diffEngineConfig fmtv H a b)"
  by (simp add: diffEngineConfig_def swapField_def stringSlicesEqual_iff
      mapsEqual_sym [of fmtv "ec_CommonConfig b"] compareSearchConfigs_sym [of H "ec_SearchConfig b"]
      eq_commute)

lemma diffAgentsFields_sym:
  "linksAgree x y \<Longrightarrow> snd (diffAgentsFields x y) = snd (diffAgentsFields y x)"
  by (cases x; cases y) (auto simp: diffAgentsFields_def linksAgree_def Let_def)

lemma swapAgentDiff_involution: "swapAgentDiff (swapAgentDiff x) = x"
  by (cases "ChangeType x") (simp_all add: swapAgentDiff_def)

lemma diffAgents_sound:
  "x \<in> set (diffAgents lower od oc current desired)
   \<Longrightarrow> isChange (agentMap lower current) (agentMap lower desired) x"
  by (auto simp: diffAgents_def Let_def isChange_def split: option.splits if_splits)

lemma diffAgents_complete:
  assumes "set od = dom (agentMap lower desired)" "set oc = dom (agentMap lower current)"
    and x: "isChange (agentMap lower current) (agentMap lower desired) x"
  shows "x \<in> set (diffAgents lower od oc current desired)"
proof (cases "ChangeType x")
  case AgentDiffAdded
  with x have k: "agentMap lower current (Key x) = None"
      "agentMap lower desired (Key x) = Some (ad_New x)" "ad_Old x = None"
    by (simp_all add: isChange_def)
  then have "Key x \<in> set od" using assms(1) by (simp add: dom_def)
  moreover have "x = \<lparr>Key = Key x, ChangeType = AgentDiffAdded, ad_Old = None, ad_New = ad_New x\<rparr>"
    using AgentDiffAdded k(3) by simp
  ultimately show ?thesis
    using k by (force simp: diffAgents_def Let_def)
next
  case AgentDiffRemoved
  with x have k: "agentMap lower current (Key x) = Some (ad_Old x)"
      "agentMap lower desired (Key x) = None" "ad_New x = None"
    by (simp_all add: isChange_def)
  then have "Key x \<in> set oc" using assms(2) by (simp add: dom_def)
  moreover have "x = \<lparr>Key = Key x, ChangeType = AgentDiffRemoved, ad_Old = ad_Old x, ad_New = None\<rparr>"
    using AgentDiffRemoved k(3) by simp
  ultimately show ?thesis
    using k by (force simp: diffAgents_def Let_def)
next
  case AgentDiffUpdated
  with x have k: "agentMap lower current (Key x) = Some (ad_Old x)"
      "agentMap lower desired (Key x) = Some (ad_New x)"
      "snd (diffAgentsFields (ad_Old x) (ad_New x))"
    by (simp_all add: isChange_def)
  then have "Key x \<in> set od" using assms(1) by (simp add: dom_def)
  moreover have "x = \<lparr>Key = Key x, ChangeType = AgentDiffUpdated, ad_Old = ad_Old x, ad_New = ad_New x\<rparr>"
    using AgentDiffUpdated by simp
  ultimately show ?thesis
    using k by (force simp: diffAgents_def Let_def)
qed

lemma diffAgents_empty:
  assumes "rangeOrder (agentMap lower desired) od" "rangeOrder (agentMap lower current) oc"
    and "diffAgents lower od oc current desired = []"
  shows "\<not> isChange (agentMap lower current) (agentMap lower desired) x"
proof
  assume "isChange (agentMap lower current) (agentMap lower desired) x"
  from diffAgents_complete [OF _ _ this, of od oc] assms(1,2)
  have "x \<in> set (diffAgents lower od oc current desired)"
    by (simp add: rangeOrder_def)
  with assms(3) show False by simp
qed

lemma isChange_swap:
  assumes "\<And>k x y. cm k = Some x \<Longrightarrow> dm k = Some y \<Longrightarrow> linksAgree x y"
  shows "isChange dm cm (swapAgentDiff z) = isChange cm dm z"
proof (cases "ChangeType z")
  case AgentDiffUpdated
  have "snd (diffAgentsFields (ad_New z) (ad_Old z)) = snd (diffAgentsFields (ad_Old z) (ad_New z))"
    if "cm (Key z) = Some (ad_Old z)" "dm (Key z) = Some (ad_New z)"
    using diffAgentsFields_sym [OF assms [OF that]] by simp
  with AgentDiffUpdated show ?thesis
    by (auto simp: isChange_def swapAgentDiff_def)
qed (auto simp: isChange_def swapAgentDiff_def)

lemma diffMetadata_orientation:
  "fd \<in> set (diffMetadata a b)
   \<Longrightarrow> fd_Old fd = metadataField (fd_Field fd) a \<and> fd_New fd = metadataField (fd_Field fd) b"
  by (auto simp: diffMetadata_def metadataField_def split: if_splits)

lemma diffEngineConfig_orientation:
  "fd \<in> set (diffEngineConfig fmtv H a b)
   \<Longrightarrow> fd_Old fd = engineField (fd_Field fd) a \<and> fd_New fd = engineField (fd_Field fd) b"
  by (auto simp: diffEngineConfig_def engineField_def split: if_splits)

lemma DiffSnapshots_orientation:
  "(\<forall>fd \<in> set (MetadataChanges (DiffSnapshots rt od oc a b)).
      fd_Old fd = metadataField (fd_Field fd) (sn_Metadata a)
      \<and> fd_New fd = metadataField (fd_Field fd) (sn_Metadata b))
   \<and> (\<forall>fd \<in> set (EngineChanges (DiffSnapshots rt od oc a b)).
      fd_Old fd = engineField (fd_Field fd) (sn_Engine a)
      \<and> fd_New fd = engineField (fd_Field fd) (sn_Engine b))
   \<and> (\<forall>fc \<in> set (FeatureChanges (DiffSnapshots rt od oc a b)).
      ft_Old fc = mapIndex (ec_Features (sn_Engine a)) (Feature fc)
      \<and> ft_New fc = mapIndex (ec_Features (sn_Engine b)) (Feature fc))
   \<and> (\<forall>ch \<in> set (AgentChanges (DiffSnapshots rt od oc a b)).
      isChange (agentMap (ToLower rt) (sn_Agents a)) (agentMap (ToLower rt) (sn_Agents b)) ch)"
  using diffMetadata_orientation diffEngineConfig_orientation diffFeatures_orientation
    diffAgents_sound
  by (simp add: DiffSnapshots_def) blast

subsection \<open>Facts about restore\<close>

text \<open>The agent step only issues agent writes, and appends them to the writes so far.\<close>

lemma isAgentWrite_simps [simp]:
  "isAgentWrite (CreateAgent name input)"
  "isAgentWrite (UpdateAgent name input um)"
  "isAgentWrite (DeleteAgent name)"
  "\<not> isAgentWrite (EnginesCreate parent engineID engine)"
  "\<not> isAgentWrite (EnginesPatch name patch jm)"
  "\<not> isAgentWrite (UpdateEngineFeatures name feats)"
  by (simp_all add: isAgentWrite_def)

lemma createAgent_trace:
  "\<exists>ws. snd (createAgentFromSnapshot c en agent tr) = tr @ ws \<and> list_all isAgentWrite ws"
  by (auto simp: createAgentFromSnapshot_def issue_def Let_def
      split: option.splits)

lemma updateAgent_trace:
  "\<exists>ws. snd (updateAgentFromSnapshot c en existing desired um tr) = tr @ ws
        \<and> list_all isAgentWrite ws"
  by (auto simp: updateAgentFromSnapshot_def issue_def Let_def
      split: option.splits)

lemma syncDesiredLoop_trace:
  "\<exists>ws. snd (syncDesiredLoop c en cm dm ks changes tr) = tr @ ws \<and> list_all isAgentWrite ws"
proof (induction ks arbitrary: changes tr)
  case Nil
  show ?case by simp
next
  case (Cons key ks)
  show ?case
  proof (cases "dm key")
    case None
    with Cons.IH show ?thesis by simp
  next
    case (Some desiredAgent)
    show ?thesis
    proof (cases "cm key")
      case None
      obtain r tr' where r: "createAgentFromSnapshot c en desiredAgent tr = (r, tr')"
        by (cases "createAgentFromSnapshot c en desiredAgent tr")
      from createAgent_trace [of c en desiredAgent tr] r
      obtain ws where ws: "tr' = tr @ ws" "list_all isAgentWrite ws" by auto
      show ?thesis
      proof (cases r)
        case None
        from Cons.IH [of _ tr'] obtain ws' where
          "snd (syncDesiredLoop c en cm dm ks
                  (changes @ [\<lparr>Key = key, ChangeType = AgentDiffAdded, ad_Old = None,
                               ad_New = desiredAgent\<rparr>]) tr') = tr' @ ws'"
          "list_all isAgentWrite ws'" by blast
        with ws None r Some \<open>cm key = None\<close> show ?thesis by auto
      next
        case (Some err)
        with ws r \<open>dm key = Some desiredAgent\<close> \<open>cm key = None\<close> show ?thesis by auto
      qed
    next
      case (Some existing)
      note ex = this
      show ?thesis
      proof (cases "snd (diffAgentsFields existing desiredAgent)")
        case False
        with Cons.IH ex \<open>dm key = Some desiredAgent\<close> show ?thesis by simp
      next
        case True
        obtain r tr' where r: "updateAgentFromSnapshot c en existing desiredAgent
                                 (fst (diffAgentsFields existing desiredAgent)) tr = (r, tr')"
          by (cases "updateAgentFromSnapshot c en existing desiredAgent
                                 (fst (diffAgentsFields existing desiredAgent)) tr")
        from updateAgent_trace [of c en existing desiredAgent "fst (diffAgentsFields existing desiredAgent)" tr] r
        obtain ws where ws: "tr' = tr @ ws" "list_all isAgentWrite ws" by auto
        show ?thesis
        proof (cases r)
          case None
          from Cons.IH [of _ tr'] obtain ws' where
            "snd (syncDesiredLoop c en cm dm ks
                    (changes @ [\<lparr>Key = key, ChangeType = AgentDiffUpdated, ad_Old = existing,
                                 ad_New = desiredAgent\<rparr>]) tr') = tr' @ ws'"
            "list_all isAgentWrite ws'" by blast
          with ws None r ex True \<open>dm key = Some desiredAgent\<close> show ?thesis by auto
        next
          case (Some err)
          with ws r ex True \<open>dm key = Some desiredAgent\<close> show ?thesis by auto
        qed
      qed
    qed
  qed
qed

lemma syncCurrentLoop_trace:
  "\<exists>ws. snd (syncCurrentLoop c cm dm ks changes tr) = tr @ ws \<and> list_all isAgentWrite ws"
proof (induction ks arbitrary: changes tr)
  case Nil
  show ?case by simp
next
  case (Cons key ks)
  show ?case
  proof (cases "cm key")
    case None
    with Cons.IH show ?thesis by simp
  next
    case (Some existing)
    note ex = this
    show ?thesis
    proof (cases "dm key")
      case (Some d)
      with Cons.IH ex show ?thesis by simp
    next
      case None
      note dn = this
      show ?thesis
      proof (cases existing)
        case None
        with ex dn show ?thesis by simp
      next
        case (Some e)
        show ?thesis
        proof (cases "Remote c tr (DeleteAgent (ag_Name e))")
          case None
          from Cons.IH [of _ "tr @ [DeleteAgent (ag_Name e)]"] obtain ws' where
            "snd (syncCurrentLoop c cm dm ks
                    (changes @ [\<lparr>Key = key, ChangeType = AgentDiffRemoved, ad_Old = existing,
                                 ad_New = None\<rparr>]) (tr @ [DeleteAgent (ag_Name e)]))
             = (tr @ [DeleteAgent (ag_Name e)]) @ ws'"
            "list_all isAgentWrite ws'" by blast
          with None ex dn \<open>existing = Some e\<close> show ?thesis
            by (auto simp: issue_def)
        next
          case (Some err)
          with ex dn \<open>existing = Some e\<close> show ?thesis
            by (auto simp: issue_def)
        qed
      qed
    qed
  qed
qed

lemma syncAgents_trace:
  "\<exists>ws. snd (syncAgentsWithSnapshot lower c en od oc current desired tr) = tr @ ws
        \<and> list_all isAgentWrite ws"
proof -
  let ?cm = "agentMap lower current" and ?dm = "agentMap lower desired"
  obtain r tr' where r: "syncDesiredLoop c en ?cm ?dm od [] tr = (r, tr')"
    by (cases "syncDesiredLoop c en ?cm ?dm od [] tr")
  from syncDesiredLoop_trace [of c en ?cm ?dm od "[]" tr] r
  obtain ws where ws: "tr' = tr @ ws" "list_all isAgentWrite ws" by auto
  show ?thesis
  proof (cases r)
    case (Inl err)
    with r ws show ?thesis by (auto simp: syncAgentsWithSnapshot_def Let_def)
  next
    case (Inr changes)
    from syncCurrentLoop_trace [of c ?cm ?dm oc changes tr'] obtain ws' where
      "snd (syncCurrentLoop c ?cm ?dm oc changes tr') = tr' @ ws'" "list_all isAgentWrite ws'"
      by blast
    with Inr r ws show ?thesis by (auto simp: syncAgentsWithSnapshot_def Let_def)
  qed
qed

lemma applyFeature_trace:
  "\<exists>ws. snd (applyFeatureSnapshot c name feats tr) = tr @ ws \<and> list_all (Not \<circ> isEnginesPatch) ws"
  by (auto simp: applyFeatureSnapshot_def issue_def isEnginesPatch_def split: option.splits)

lemma agentWrite_not_patch: "list_all isAgentWrite ws \<Longrightarrow> filter isEnginesPatch ws = []"
  by (induction ws) (auto simp: isAgentWrite_def isEnginesPatch_def split: wcall.splits)

text \<open>When no key needs a change the two loops issue nothing and report nothing.\<close>

lemma syncDesiredLoop_noop:
  assumes "\<And>k d. dm k = Some d \<Longrightarrow> \<exists>e. cm k = Some e \<and> \<not> snd (diffAgentsFields e d)"
  shows "syncDesiredLoop c en cm dm ks changes tr = (Inr changes, tr)"
proof (induction ks)
  case Nil
  show ?case by simp
next
  case (Cons key ks)
  show ?case
  proof (cases "dm key")
    case None
    with Cons show ?thesis by simp
  next
    case (Some d)
    from assms [OF Some] obtain e where "cm key = Some e" "\<not> snd (diffAgentsFields e d)"
      by blast
    with Some Cons show ?thesis by simp
  qed
qed

lemma syncCurrentLoop_noop:
  assumes "\<And>k e. cm k = Some e \<Longrightarrow> dm k \<noteq> None"
  shows "syncCurrentLoop c cm dm ks changes tr = (Inr changes, tr)"
proof (induction ks)
  case Nil
  show ?case by simp
next
  case (Cons key ks)
  show ?case
  proof (cases "cm key")
    case None
    with Cons show ?thesis by simp
  next
    case (Some e)
    from assms [OF Some] obtain d where "dm key = Some d" by blast
    with Some Cons show ?thesis by simp
  qed
qed

lemma sync_converged:
  assumes od: "rangeOrder (agentMap lower live) od" and oc: "rangeOrder (agentMap lower snapAgents) oc"
    and empty: "diffAgents lower od oc snapAgents live = []"
    and agree: "\<forall>k x y. agentMap lower snapAgents k = Some x \<longrightarrow> agentMap lower live k = Some y
                  \<longrightarrow> linksAgree x y"
  shows "syncAgentsWithSnapshot lower c en sd sc live snapAgents tr = (Inr [], tr)"
proof -
  let ?sm = "agentMap lower snapAgents" and ?lm = "agentMap lower live"
  note none = diffAgents_empty [OF od oc empty]
  have both: "\<exists>e. ?lm k = Some e" if "?sm k = Some d" for k d
  proof (cases "?lm k")
    case None
    with that have "isChange ?sm ?lm
        \<lparr>Key = k, ChangeType = AgentDiffRemoved, ad_Old = d, ad_New = None\<rparr>"
      by (simp add: isChange_def)
    with none show ?thesis by blast
  qed simp
  have a: "\<exists>e. ?lm k = Some e \<and> \<not> snd (diffAgentsFields e d)" if s: "?sm k = Some d" for k d
  proof -
    from both [OF s] obtain e where e: "?lm k = Some e" by blast
    have "\<not> snd (diffAgentsFields d e)"
    proof
      assume "snd (diffAgentsFields d e)"
      with s e have "isChange ?sm ?lm
          \<lparr>Key = k, ChangeType = AgentDiffUpdated, ad_Old = d, ad_New = e\<rparr>"
        by (simp add: isChange_def)
      with none show False by blast
    qed
    moreover from agree s e have "linksAgree d e" by blast
    ultimately have "\<not> snd (diffAgentsFields e d)"
      using diffAgentsFields_sym [of d e] by simp
    with e show ?thesis by blast
  qed
  have b: "?sm k \<noteq> None" if l: "?lm k = Some e" for k e
  proof
    assume "?sm k = None"
    with l have "isChange ?sm ?lm
        \<lparr>Key = k, ChangeType = AgentDiffAdded, ad_Old = None, ad_New = e\<rparr>"
      by (simp add: isChange_def)
    with none show False by blast
  qed
  have 1: "syncDesiredLoop c en ?lm ?sm sd [] tr = (Inr [], tr)"
    by (rule syncDesiredLoop_noop) (rule a)
  have 2: "syncCurrentLoop c ?lm ?sm sc [] tr = (Inr [], tr)"
    by (rule syncCurrentLoop_noop) (rule b)
  show ?thesis
    by (simp add: syncAgentsWithSnapshot_def 1 2)
qed

text \<open>A call that returns a result has gone through every step.\<close>

lemma restore_result:
  assumes "ret_Result (RestoreEngineSnapshot rt ro c snapshot opts) = Some res"
  shows "\<exists>snap ee ags. snapshot = Some snap \<and> TargetEngineName opts \<noteq> []
           \<and> resolveTarget c opts = Inr (ee, ags) \<and> \<not> DryRun opts
           \<and> RestoreEngineSnapshot rt ro c snapshot opts
             = applySnapshot rt ro c snap opts ee ags (previewDiff rt ro snap ee ags)"
  using assms
  by (auto simp: RestoreEngineSnapshot_def split: option.splits sum.splits if_splits)

lemma applySnapshot_result:
  assumes "ret_Result (applySnapshot rt ro c snap opts ee ags d) = Some res"
  shows "\<exists>created patched tr1 tr2 changes tr3.
           engineStep rt c snap opts ee = (Inr (created, patched), tr1)
           \<and> applyFeatureSnapshot c (TargetEngineName opts) (ec_Features (sn_Engine snap)) tr1
             = (None, tr2)
           \<and> syncAgentsWithSnapshot (ToLower rt) c (TargetEngineName opts) (sy_desired ro)
               (sy_current ro) ags (sn_Agents snap) tr2 = (Inr changes, tr3)
           \<and> applySnapshot rt ro c snap opts ee ags d
             = \<lparr>ret_Result =
                  Some \<lparr>EngineName = TargetEngineName opts, Created = created,
                        EnginePatched = patched,
                        rs_FeatureChanges =
                          diffFeatures (existingEngineFeatures ee) (ec_Features (sn_Engine snap)),
                        rs_AgentChanges = changes\<rparr>,
                ret_Diff = d, ret_Err = None, ret_Writes = tr3\<rparr>"
proof -
  obtain r1 tr1 where e: "engineStep rt c snap opts ee = (r1, tr1)"
    by (cases "engineStep rt c snap opts ee")
  obtain r2 tr2 where f: "applyFeatureSnapshot c (TargetEngineName opts)
                            (ec_Features (sn_Engine snap)) tr1 = (r2, tr2)"
    by (cases "applyFeatureSnapshot c (TargetEngineName opts) (ec_Features (sn_Engine snap)) tr1")
  obtain r3 tr3 where s: "syncAgentsWithSnapshot (ToLower rt) c (TargetEngineName opts)
                            (sy_desired ro) (sy_current ro) ags (sn_Agents snap) tr2 = (r3, tr3)"
    by (cases "syncAgentsWithSnapshot (ToLower rt) c (TargetEngineName opts)
                 (sy_desired ro) (sy_current ro) ags (sn_Agents snap) tr2")
  from assms e f s show ?thesis
    by (auto simp: applySnapshot_def split: sum.splits option.splits)
qed

lemma resolveTarget_existing:
  assumes "GetEngineDetails c (TargetEngineName opts) = Inr (Some engine)"
    and "resolveTarget c opts = Inr (ee, ags)"
  shows "ee = Some engine \<and> ListAgents c (TargetEngineName opts) = Inr ags"
  using assms by (auto simp: resolveTarget_def split: sum.splits)

lemma engineStep_update:
  assumes "UpdateExisting opts"
    and "engineStep rt c snap opts (Some engine) = (Inr (created, patched), tr1)"
  shows "patched \<and> \<not> created
         \<and> (engineUpdateMask (Heap rt) engine (sn_Engine snap) = [] \<longrightarrow> tr1 = [])
         \<and> (engineUpdateMask (Heap rt) engine (sn_Engine snap) \<noteq> [] \<longrightarrow>
              tr1 = [EnginesPatch (TargetEngineName opts)
                       (enginePatch (Heap rt) engine (sn_Engine snap))
                       (joinWith '','' (engineUpdateMask (Heap rt) engine (sn_Engine snap)))])"
  using assms
  by (auto simp: engineStep_def patchEngineFromSnapshot_def issue_def
      split: option.splits prod.splits if_splits)

subsection \<open>Facts about the concrete inputs\<close>

lemma exKeyA: "agentSnapshotKey asciiLower (Some exHelperWithEngine) = ''helper''"
  by (simp add: agentSnapshotKey_def exHelperWithEngine_def zeroAgent_def asciiLower_def asciiLowerChar_def)

lemma exKeyB: "agentSnapshotKey asciiLower (Some exHelperPlain) = ''helper''"
  by (simp add: agentSnapshotKey_def exHelperPlain_def zeroAgent_def asciiLower_def asciiLowerChar_def)

lemma exNeeds:
  "snd (diffAgentsFields (Some exHelperWithEngine) (Some exHelperPlain)) = False"
  "snd (diffAgentsFields (Some exHelperPlain) (Some exHelperWithEngine)) = True"
  by (simp_all add: diffAgentsFields_def exHelperPlain_def exHelperWithEngine_def zeroAgent_def agentLink_def)

lemma exKeyOld: "agentSnapshotKey asciiLower (Some exHelperOld) = ''helper''"
  by (simp add: agentSnapshotKey_def exHelperOld_def zeroAgent_def asciiLower_def asciiLowerChar_def)

lemma exKeyNew: "agentSnapshotKey asciiLower (Some exHelperNew) = ''helper''"
  by (simp add: agentSnapshotKey_def exHelperNew_def zeroAgent_def asciiLower_def asciiLowerChar_def)

lemma exKeyExtra: "agentSnapshotKey asciiLower (Some exExtra) = ''extra''"
  by (simp add: agentSnapshotKey_def exExtra_def zeroAgent_def asciiLower_def asciiLowerChar_def)

lemma exKeyLive: "agentSnapshotKey asciiLower (Some exHelperLive) = ''helper''"
  by (simp add: agentSnapshotKey_def exHelperLive_def zeroAgent_def asciiLower_def asciiLowerChar_def)

lemma exMapLive: "agentMap (ToLower exRuntime) [Some exHelperLive] = [''helper'' \<mapsto> Some exHelperLive]"
  by (simp add: agentMap_def exRuntime_def exKeyLive)

lemma exMapWithEngine:
  "agentMap (ToLower exRuntime) [Some exHelperWithEngine] = [''helper'' \<mapsto> Some exHelperWithEngine]"
  by (simp add: agentMap_def exRuntime_def exKeyA)

lemma exNeedsLive:
  "diffAgentsFields (Some exHelperWithEngine) (Some exHelperLive) = ([], False)"
  "diffAgentsFields (Some exHelperLive) (Some exHelperWithEngine) = ([''reasoningEngine''], True)"
  "diffAgentsFields (Some exHelperLive) (Some exHelperLive) = ([], False)"
  by (simp_all add: diffAgentsFields_def exHelperLive_def exHelperWithEngine_def zeroAgent_def
      agentLink_def)

lemma exName_nonempty: "exEngineName \<noteq> []"
  by (simp add: exEngineName_def)

lemma exResolve:
  "resolveTarget (exClientOf feats agents) (exOpts create update dry)
   = Inr (Some (exEngineOf feats), agents)"
  by (simp add: resolveTarget_def exClientOf_def exOpts_def)

lemma exPreview_empty:
  "previewDiff exRuntime (exOrdersOf []) (exSnapshotOf feats []) (Some (exEngineOf feats)) []
   = zeroDiff"
  by (simp add: previewDiff_def DiffSnapshots_def currentSnapshot_def exSnapshotOf_def
      exEngineOf_def exRuntime_def exOrdersOf_def zeroDiff_def zeroMetadata_def
      diffMetadata_def diffEngineConfig_def stringSlicesEqual_iff mapsEqual_iff
      compareSearchConfigs_def diffFeatures_swap [of feats feats] cloneStringMap_id
      cloneStringInterfaceMap_id diffAgents_def agentMap_def cloneAgents_def diffFeatures_def)

lemma exPreview_agents:
  "previewDiff exRuntime (exOrdersOf [''helper'']) (exSnapshotOf feats [Some x])
     (Some (exEngineOf feats)) [Some exHelperLive]
   = zeroDiff\<lparr>AgentChanges :=
       diffAgents asciiLower [''helper''] [''helper''] [Some x] [Some exHelperLive]\<rparr>"
proof -
  have c: "cloneAgents [Some exHelperLive] = [Some exHelperLive]"
    by (rule cloneAgents_id) simp
  show ?thesis
    by (simp add: previewDiff_def DiffSnapshots_def currentSnapshot_def c)
       (simp add: exSnapshotOf_def exEngineOf_def exRuntime_def exOrdersOf_def zeroDiff_def
          zeroMetadata_def diffMetadata_def diffEngineConfig_def stringSlicesEqual_iff
          mapsEqual_iff compareSearchConfigs_def cloneStringMap_id cloneStringInterfaceMap_id
          diffFeatures_def)
qed

lemma exDiffAgents_stale:
  "diffAgents asciiLower [''helper''] [''helper''] [Some exHelperWithEngine] [Some exHelperLive] = []"
  using exMapLive exMapWithEngine
  by (simp add: diffAgents_def exRuntime_def exNeedsLive)

lemma exDiffAgents_same:
  "diffAgents asciiLower [''helper''] [''helper''] [Some exHelperLive] [Some exHelperLive] = []"
  using exMapLive
  by (simp add: diffAgents_def exRuntime_def exNeedsLive)

subsection \<open>The claims\<close>

text \<open>
  C1 (as amended). Let the target engine exist, let its agent list hold no nil entry, and
  let the preview diff of the snapshot against it be empty (for orders of the preview's
  two loops that visit every key). A call of \<^verbatim>\<open>RestoreEngineSnapshot\<close> with
  \<^verbatim>\<open>DryRun\<close> and \<^verbatim>\<open>UpdateExisting\<close> false then issues no engine create, engine patch or
  agent write, provided every snapshot agent and live agent matched by key agree on their
  links; its only write is one feature update, issued exactly when the feature map of the
  snapshot is not nil; and when that update succeeds the call returns no error and a
  result with \<^verbatim>\<open>Created\<close> and \<^verbatim>\<open>EnginePatched\<close> false and both change lists empty.
\<close>

theorem restore_converged:
  assumes name: "TargetEngineName opts \<noteq> []"
    and opts: "\<not> DryRun opts" "\<not> UpdateExisting opts"
    and engine: "GetEngineDetails c (TargetEngineName opts) = Inr (Some engine)"
    and agents: "ListAgents c (TargetEngineName opts) = Inr agents" "None \<notin> set agents"
    and orders: "rangeOrder (agentMap (ToLower rt) agents) (pv_desired ro)"
      "rangeOrder (agentMap (ToLower rt) (sn_Agents snap)) (pv_current ro)"
    and empty: "IsEmpty (DiffSnapshots rt (pv_desired ro) (pv_current ro) snap
                           (currentSnapshot rt engine agents))"
    and agree: "\<forall>k x y. agentMap (ToLower rt) (sn_Agents snap) k = Some x
                  \<longrightarrow> agentMap (ToLower rt) agents k = Some y \<longrightarrow> linksAgree x y"
  shows "ret_Writes (RestoreEngineSnapshot rt ro c (Some snap) opts)
           = (if ec_Features (sn_Engine snap) = None then []
              else [UpdateEngineFeatures (TargetEngineName opts) (ec_Features (sn_Engine snap))])
         \<and> (ec_Features (sn_Engine snap) = None
              \<or> Remote c [] (UpdateEngineFeatures (TargetEngineName opts)
                               (ec_Features (sn_Engine snap))) = None
            \<longrightarrow> ret_Err (RestoreEngineSnapshot rt ro c (Some snap) opts) = None
                \<and> ret_Result (RestoreEngineSnapshot rt ro c (Some snap) opts)
                  = Some \<lparr>EngineName = TargetEngineName opts, Created = False,
                          EnginePatched = False, rs_FeatureChanges = [],
                          rs_AgentChanges = []\<rparr>)"
proof -
  have rs: "resolveTarget c opts = Inr (Some engine, agents)"
    using engine agents(1) by (simp add: resolveTarget_def)
  have es: "engineStep rt c snap opts (Some engine) = (Inr (False, False), [])"
    using opts(2) by (simp add: engineStep_def)
  from empty have fe: "diffFeatures (ec_Features (sn_Engine snap)) (en_Features engine) = []"
    and ae: "diffAgents (ToLower rt) (pv_desired ro) (pv_current ro) (sn_Agents snap) agents = []"
    by (simp_all add: IsEmpty_def DiffSnapshots_def currentSnapshot_def cloneStringMap_id
        cloneAgents_id [OF agents(2)])
  have fc: "diffFeatures (existingEngineFeatures (Some engine)) (ec_Features (sn_Engine snap)) = []"
    using diffFeatures_swap [of "en_Features engine" "ec_Features (sn_Engine snap)"] fe
    by (simp add: existingEngineFeatures_def cloneStringMap_id)
  have sy: "syncAgentsWithSnapshot (ToLower rt) c (TargetEngineName opts) (sy_desired ro)
              (sy_current ro) agents (sn_Agents snap) tr = (Inr [], tr)" for tr
    by (rule sync_converged [OF orders ae agree])
  have r: "RestoreEngineSnapshot rt ro c (Some snap) opts
           = applySnapshot rt ro c snap opts (Some engine) agents
               (previewDiff rt ro snap (Some engine) agents)"
    using name opts(1) rs by (simp add: RestoreEngineSnapshot_def)
  show ?thesis
  proof (cases "ec_Features (sn_Engine snap)")
    case None
    then show ?thesis
      using fc by (simp add: r applySnapshot_def es applyFeatureSnapshot_def sy)
  next
    case (Some al)
    then show ?thesis
      using fc by (auto simp: r applySnapshot_def es applyFeatureSnapshot_def issue_def sy
          split: option.splits)
  qed
qed

theorem restore_converged_witness:
  "ret_Writes (RestoreEngineSnapshot exRuntime (exOrdersOf [''helper''])
                 (exClientOf exGalleryOn [Some exHelperLive])
                 (Some (exSnapshotOf exGalleryOn [Some exHelperLive])) (exOpts False False False))
   = [UpdateEngineFeatures exEngineName exGalleryOn]
   \<and> ret_Err (RestoreEngineSnapshot exRuntime (exOrdersOf [''helper''])
                 (exClientOf exGalleryOn [Some exHelperLive])
                 (Some (exSnapshotOf exGalleryOn [Some exHelperLive])) (exOpts False False False))
     = None
   \<and> ret_Result (RestoreEngineSnapshot exRuntime (exOrdersOf [''helper''])
                 (exClientOf exGalleryOn [Some exHelperLive])
                 (Some (exSnapshotOf exGalleryOn [Some exHelperLive])) (exOpts False False False))
     = Some \<lparr>EngineName = exEngineName, Created = False, EnginePatched = False,
             rs_FeatureChanges = [], rs_AgentChanges = []\<rparr>"
proof -
  let ?c = "exClientOf exGalleryOn [Some exHelperLive]"
  let ?s = "exSnapshotOf exGalleryOn [Some exHelperLive]"
  let ?o = "exOpts False False False"
  let ?ro = "exOrdersOf [''helper'']"
  have n: "TargetEngineName ?o \<noteq> []"
    by (simp add: exOpts_def exName_nonempty)
  have o1: "\<not> DryRun ?o" and o2: "\<not> UpdateExisting ?o"
    by (simp_all add: exOpts_def)
  have g: "GetEngineDetails ?c (TargetEngineName ?o) = Inr (Some (exEngineOf exGalleryOn))"
    by (simp add: exClientOf_def exOpts_def)
  have l: "ListAgents ?c (TargetEngineName ?o) = Inr [Some exHelperLive]"
    by (simp add: exClientOf_def)
  have nn: "None \<notin> set [Some exHelperLive]"
    by simp
  have r1: "rangeOrder (agentMap (ToLower exRuntime) [Some exHelperLive]) (pv_desired ?ro)"
    by (simp add: exMapLive rangeOrder_def exOrdersOf_def)
  have r2: "rangeOrder (agentMap (ToLower exRuntime) (sn_Agents ?s)) (pv_current ?ro)"
    by (simp add: exSnapshotOf_def exMapLive rangeOrder_def exOrdersOf_def)
  have e: "IsEmpty (DiffSnapshots exRuntime (pv_desired ?ro) (pv_current ?ro) ?s
                      (currentSnapshot exRuntime (exEngineOf exGalleryOn) [Some exHelperLive]))"
    using exPreview_agents [of exGalleryOn exHelperLive] exDiffAgents_same
    by (simp add: previewDiff_def IsEmpty_def zeroDiff_def exOrdersOf_def)
  have a: "\<forall>k x y. agentMap (ToLower exRuntime) (sn_Agents ?s) k = Some x
             \<longrightarrow> agentMap (ToLower exRuntime) [Some exHelperLive] k = Some y \<longrightarrow> linksAgree x y"
    by (auto simp: exSnapshotOf_def exMapLive linksAgree_def split: if_splits)
  show ?thesis
    using restore_converged [OF n o1 o2 g l nn r1 r2 e a]
    by (simp add: exSnapshotOf_def exGalleryOn_def exOpts_def exClientOf_def)
qed

text \<open>
  C1 as stated fails: the snapshot and the engine carry the same feature map, the preview
  diff is empty, and the call still issues the feature update.
\<close>

theorem restore_converged_counterexample:
  "IsEmpty (ret_Diff (RestoreEngineSnapshot exRuntime (exOrdersOf []) (exClientOf exGalleryOn [])
                        (Some (exSnapshotOf exGalleryOn [])) (exOpts False False False)))
   \<and> ret_Writes (RestoreEngineSnapshot exRuntime (exOrdersOf []) (exClientOf exGalleryOn [])
                    (Some (exSnapshotOf exGalleryOn [])) (exOpts False False False))
     = [UpdateEngineFeatures exEngineName exGalleryOn]"
proof -
  have r: "RestoreEngineSnapshot exRuntime (exOrdersOf []) (exClientOf exGalleryOn [])
             (Some (exSnapshotOf exGalleryOn [])) (exOpts False False False)
           = applySnapshot exRuntime (exOrdersOf []) (exClientOf exGalleryOn [])
               (exSnapshotOf exGalleryOn []) (exOpts False False False)
               (Some (exEngineOf exGalleryOn)) [] zeroDiff"
    by (simp add: RestoreEngineSnapshot_def exResolve exPreview_empty)
       (simp add: exOpts_def exName_nonempty)
  show ?thesis
    unfolding r
    by (simp add: applySnapshot_def engineStep_def applyFeatureSnapshot_def issue_def
        syncAgentsWithSnapshot_def exOpts_def exSnapshotOf_def exGalleryOn_def exClientOf_def
        exOrdersOf_def IsEmpty_def zeroDiff_def)
qed

text \<open>
  The hypothesis on the links is needed: here the preview diff is empty, yet the call
  updates the live agent, whose reasoning-engine reference is empty while the snapshot's
  is not, and reports the change.
\<close>

lemma restore_converged_stale_agent:
  "IsEmpty (ret_Diff (RestoreEngineSnapshot exRuntime (exOrdersOf [''helper''])
                        (exClientOf None [Some exHelperLive])
                        (Some (exSnapshotOf None [Some exHelperWithEngine]))
                        (exOpts False False False)))
   \<and> ret_Writes (RestoreEngineSnapshot exRuntime (exOrdersOf [''helper''])
                    (exClientOf None [Some exHelperLive])
                    (Some (exSnapshotOf None [Some exHelperWithEngine]))
                    (exOpts False False False))
     = [UpdateAgent (ag_Name exHelperLive)
          \<lparr>in_DisplayName = ''Helper'', in_Description = [], in_Icon = None,
           in_DialogflowAgentDefinition = None, in_ReasoningEngine = ''re-1''\<rparr>
          [''reasoningEngine'']]
   \<and> map_option rs_AgentChanges
        (ret_Result (RestoreEngineSnapshot exRuntime (exOrdersOf [''helper''])
                       (exClientOf None [Some exHelperLive])
                       (Some (exSnapshotOf None [Some exHelperWithEngine]))
                       (exOpts False False False)))
     = Some [\<lparr>Key = ''helper'', ChangeType = AgentDiffUpdated, ad_Old = Some exHelperLive,
              ad_New = Some exHelperWithEngine\<rparr>]"
proof -
  have r: "RestoreEngineSnapshot exRuntime (exOrdersOf [''helper''])
             (exClientOf None [Some exHelperLive])
             (Some (exSnapshotOf None [Some exHelperWithEngine])) (exOpts False False False)
           = applySnapshot exRuntime (exOrdersOf [''helper'']) (exClientOf None [Some exHelperLive])
               (exSnapshotOf None [Some exHelperWithEngine]) (exOpts False False False)
               (Some (exEngineOf None)) [Some exHelperLive] zeroDiff"
    by (simp add: RestoreEngineSnapshot_def exResolve exPreview_agents exDiffAgents_stale)
       (simp add: exOpts_def exName_nonempty zeroDiff_def)
  have s: "syncAgentsWithSnapshot (ToLower exRuntime) (exClientOf None [Some exHelperLive])
             exEngineName [''helper''] [''helper''] [Some exHelperLive] [Some exHelperWithEngine] []
           = (Inr [\<lparr>Key = ''helper'', ChangeType = AgentDiffUpdated, ad_Old = Some exHelperLive,
                     ad_New = Some exHelperWithEngine\<rparr>],
              [UpdateAgent (ag_Name exHelperLive)
                 \<lparr>in_DisplayName = ''Helper'', in_Description = [], in_Icon = None,
                  in_DialogflowAgentDefinition = None, in_ReasoningEngine = ''re-1''\<rparr>
                 [''reasoningEngine'']])"
    by (simp add: syncAgentsWithSnapshot_def exMapLive exMapWithEngine exNeedsLive
        updateAgentFromSnapshot_def issue_def)
       (simp add: exClientOf_def exHelperWithEngine_def zeroAgent_def)
  show ?thesis
    unfolding r
    by (simp add: applySnapshot_def engineStep_def applyFeatureSnapshot_def)
       (simp add: exOpts_def exSnapshotOf_def exOrdersOf_def s IsEmpty_def zeroDiff_def)
qed

text \<open>
  C2. \<^verbatim>\<open>DiffSnapshots\<close> is claimed to emit the changes of every category in a stable
  order. The agent changes follow the order in which \<^verbatim>\<open>range\<close> visits the agent maps,
  which \<^verbatim>\<open>diffAgents\<close> does not sort (\<^verbatim>\<open>diffFeatures\<close> sorts its keys): on the same two
  snapshots, two orders that \<^verbatim>\<open>range\<close> may take give two different diffs.
\<close>

theorem DiffSnapshots_order_dependent:
  "rangeOrder (agentMap (ToLower exRuntime) (sn_Agents exSnapshotC)) [''helper'', ''extra'']
   \<and> rangeOrder (agentMap (ToLower exRuntime) (sn_Agents exSnapshotC)) [''extra'', ''helper'']
   \<and> rangeOrder (agentMap (ToLower exRuntime) (sn_Agents (zeroSnapshot :: string EngineSnapshot))) []
   \<and> AgentChanges (DiffSnapshots exRuntime [''helper'', ''extra''] [] zeroSnapshot exSnapshotC)
     = [\<lparr>Key = ''helper'', ChangeType = AgentDiffAdded, ad_Old = None, ad_New = Some exHelperOld\<rparr>,
        \<lparr>Key = ''extra'', ChangeType = AgentDiffAdded, ad_Old = None, ad_New = Some exExtra\<rparr>]
   \<and> AgentChanges (DiffSnapshots exRuntime [''extra'', ''helper''] [] zeroSnapshot exSnapshotC)
     = [\<lparr>Key = ''extra'', ChangeType = AgentDiffAdded, ad_Old = None, ad_New = Some exExtra\<rparr>,
        \<lparr>Key = ''helper'', ChangeType = AgentDiffAdded, ad_Old = None, ad_New = Some exHelperOld\<rparr>]
   \<and> DiffSnapshots exRuntime [''helper'', ''extra''] [] zeroSnapshot exSnapshotC
     \<noteq> DiffSnapshots exRuntime [''extra'', ''helper''] [] zeroSnapshot exSnapshotC"
proof -
  have c: "agentMap (ToLower exRuntime) (sn_Agents exSnapshotC)
           = [''helper'' \<mapsto> Some exHelperOld, ''extra'' \<mapsto> Some exExtra]"
    by (simp add: agentMap_def exRuntime_def exSnapshotC_def exKeyOld exKeyExtra)
  have z: "agentMap (ToLower exRuntime) (sn_Agents (zeroSnapshot :: string EngineSnapshot)) = Map.empty"
    by (simp add: agentMap_def zeroSnapshot_def)
  have o: "rangeOrder (agentMap (ToLower exRuntime) (sn_Agents exSnapshotC)) [''helper'', ''extra'']"
      "rangeOrder (agentMap (ToLower exRuntime) (sn_Agents exSnapshotC)) [''extra'', ''helper'']"
      "rangeOrder (agentMap (ToLower exRuntime) (sn_Agents (zeroSnapshot :: string EngineSnapshot))) []"
    by (auto simp: c z rangeOrder_def)
  have a1: "AgentChanges (DiffSnapshots exRuntime [''helper'', ''extra''] [] zeroSnapshot exSnapshotC)
     = [\<lparr>Key = ''helper'', ChangeType = AgentDiffAdded, ad_Old = None, ad_New = Some exHelperOld\<rparr>,
        \<lparr>Key = ''extra'', ChangeType = AgentDiffAdded, ad_Old = None, ad_New = Some exExtra\<rparr>]"
    using c z by (simp add: DiffSnapshots_def diffAgents_def)
  have a2: "AgentChanges (DiffSnapshots exRuntime [''extra'', ''helper''] [] zeroSnapshot exSnapshotC)
     = [\<lparr>Key = ''extra'', ChangeType = AgentDiffAdded, ad_Old = None, ad_New = Some exExtra\<rparr>,
        \<lparr>Key = ''helper'', ChangeType = AgentDiffAdded, ad_Old = None, ad_New = Some exHelperOld\<rparr>]"
    using c z by (simp add: DiffSnapshots_def diffAgents_def)
  have "AgentChanges (DiffSnapshots exRuntime [''helper'', ''extra''] [] zeroSnapshot exSnapshotC)
        \<noteq> AgentChanges (DiffSnapshots exRuntime [''extra'', ''helper''] [] zeroSnapshot exSnapshotC)"
    unfolding a1 a2 by simp
  then have "DiffSnapshots exRuntime [''helper'', ''extra''] [] zeroSnapshot exSnapshotC
     \<noteq> DiffSnapshots exRuntime [''extra'', ''helper''] [] zeroSnapshot exSnapshotC"
    by metis
  with o a1 a2 show ?thesis by simp
qed

text \<open>
  C3. \<^verbatim>\<open>CreateEngineSnapshot\<close> is claimed to copy every mutable field, the nested search
  configuration included. The snapshot holds the very pointer of the engine it was taken
  from: after the capture, setting the search tier of the source engine changes the search
  configuration that the snapshot holds.
\<close>

theorem CreateEngineSnapshot_aliases_search_config:
  "(case CreateEngineSnapshot (exRuntime\<lparr>Heap := exHeap\<rparr>) exSearchClient exEngineName of
      Inl err \<Rightarrow> False
    | Inr snapshot \<Rightarrow>
        ec_SearchConfig (sn_Engine snapshot) = en_SearchEngineConfig exSearchEngine
        \<and> snapshotSearchConfig exHeap snapshot
          = Some \<lparr>SearchTier = ''SEARCH_TIER_STANDARD'', SearchAddOns = []\<rparr>
        \<and> snapshotSearchConfig (setSearchTier exHeap exSearchEngine ''SEARCH_TIER_ENTERPRISE'')
            snapshot
          = Some \<lparr>SearchTier = ''SEARCH_TIER_ENTERPRISE'', SearchAddOns = []\<rparr>)"
  by (simp add: CreateEngineSnapshot_def exSearchClient_def exClientOf_def exSearchEngine_def
      exEngineOf_def snapshotSearchConfig_def setSearchTier_def exHeap_def deref_def)

text \<open>
  C4. With \<^verbatim>\<open>DryRun\<close> true, whatever the snapshot, the other options, the client and the
  remote service, \<^verbatim>\<open>RestoreEngineSnapshot\<close> issues no write and returns no result; and
  when the target resolves (the engine and its agents are read, or the engine is reported
  not found and \<^verbatim>\<open>CreateIfMissing\<close> is set) it returns no error and the preview diff:
  the diff of the snapshot against the live engine, or the diff that announces the
  creation.
\<close>

theorem restore_dry_run:
  assumes "DryRun opts"
  shows "ret_Writes (RestoreEngineSnapshot rt ro c snapshot opts) = []
         \<and> ret_Result (RestoreEngineSnapshot rt ro c snapshot opts) = None
         \<and> (snapshot = Some snap \<and> TargetEngineName opts \<noteq> []
              \<and> GetEngineDetails c (TargetEngineName opts) = Inr (Some engine)
              \<and> ListAgents c (TargetEngineName opts) = Inr agents
            \<longrightarrow> ret_Err (RestoreEngineSnapshot rt ro c snapshot opts) = None
                \<and> ret_Diff (RestoreEngineSnapshot rt ro c snapshot opts)
                  = DiffSnapshots rt (pv_desired ro) (pv_current ro) snap
                      (currentSnapshot rt engine agents))
         \<and> (snapshot = Some snap \<and> TargetEngineName opts \<noteq> []
              \<and> GetEngineDetails c (TargetEngineName opts) = Inl err \<and> isNotFound err
              \<and> CreateIfMissing opts
            \<longrightarrow> ret_Err (RestoreEngineSnapshot rt ro c snapshot opts) = None
                \<and> ret_Diff (RestoreEngineSnapshot rt ro c snapshot opts)
                  = \<lparr>MetadataChanges = [],
                     EngineChanges = [\<lparr>fd_Field = ''engine'', fd_Old = VString ''missing'',
                                       fd_New = VString ''will be created''\<rparr>],
                     FeatureChanges = diffFeatures (Some []) (ec_Features (sn_Engine snap)),
                     AgentChanges = diffAgents (ToLower rt) (pv_desired ro) (pv_current ro) []
                                      (sn_Agents snap)\<rparr>)"
proof -
  have w: "ret_Writes (RestoreEngineSnapshot rt ro c snapshot opts) = []"
      "ret_Result (RestoreEngineSnapshot rt ro c snapshot opts) = None"
    using assms
    by (auto simp: RestoreEngineSnapshot_def split: option.splits sum.splits)
  have a: "snapshot = Some snap \<and> TargetEngineName opts \<noteq> []
              \<and> GetEngineDetails c (TargetEngineName opts) = Inr (Some engine)
              \<and> ListAgents c (TargetEngineName opts) = Inr agents
            \<longrightarrow> ret_Err (RestoreEngineSnapshot rt ro c snapshot opts) = None
                \<and> ret_Diff (RestoreEngineSnapshot rt ro c snapshot opts)
                  = DiffSnapshots rt (pv_desired ro) (pv_current ro) snap
                      (currentSnapshot rt engine agents)"
    using assms
    by (auto simp: RestoreEngineSnapshot_def resolveTarget_def previewDiff_def)
  have b: "snapshot = Some snap \<and> TargetEngineName opts \<noteq> []
              \<and> GetEngineDetails c (TargetEngineName opts) = Inl err \<and> isNotFound err
              \<and> CreateIfMissing opts
            \<longrightarrow> ret_Err (RestoreEngineSnapshot rt ro c snapshot opts) = None
                \<and> ret_Diff (RestoreEngineSnapshot rt ro c snapshot opts)
                  = \<lparr>MetadataChanges = [],
                     EngineChanges = [\<lparr>fd_Field = ''engine'', fd_Old = VString ''missing'',
                                       fd_New = VString ''will be created''\<rparr>],
                     FeatureChanges = diffFeatures (Some []) (ec_Features (sn_Engine snap)),
                     AgentChanges = diffAgents (ToLower rt) (pv_desired ro) (pv_current ro) []
                                      (sn_Agents snap)\<rparr>"
    using assms
    by (auto simp: RestoreEngineSnapshot_def resolveTarget_def previewDiff_def)
  show ?thesis
    by (intro conjI) (fact w a b)+
qed

theorem restore_dry_run_witness:
  "ret_Writes (RestoreEngineSnapshot exRuntime (exOrdersOf []) (exClientOf None [])
                 (Some (exSnapshotOf exGalleryOn [])) (exOpts True True True)) = []
   \<and> ret_Result (RestoreEngineSnapshot exRuntime (exOrdersOf []) (exClientOf None [])
                    (Some (exSnapshotOf exGalleryOn [])) (exOpts True True True)) = None
   \<and> ret_Err (RestoreEngineSnapshot exRuntime (exOrdersOf []) (exClientOf None [])
                 (Some (exSnapshotOf exGalleryOn [])) (exOpts True True True)) = None
   \<and> FeatureChanges
        (ret_Diff (RestoreEngineSnapshot exRuntime (exOrdersOf []) (exClientOf None [])
                     (Some (exSnapshotOf exGalleryOn [])) (exOpts True True True)))
     = [\<lparr>Feature = ''agent-gallery'', ft_Old = ''ON'', ft_New = []\<rparr>]"
proof -
  let ?c = "exClientOf None []"
  let ?o = "exOpts True True True"
  have d: "DryRun ?o"
    by (simp add: exOpts_def)
  have h: "Some (exSnapshotOf exGalleryOn []) = Some (exSnapshotOf exGalleryOn [])
           \<and> TargetEngineName ?o \<noteq> []
           \<and> GetEngineDetails ?c (TargetEngineName ?o) = Inr (Some (exEngineOf None))
           \<and> ListAgents ?c (TargetEngineName ?o) = Inr []"
    by (simp add: exOpts_def exName_nonempty exClientOf_def)
  have f: "FeatureChanges (DiffSnapshots exRuntime (pv_desired (exOrdersOf []))
             (pv_current (exOrdersOf [])) (exSnapshotOf exGalleryOn [])
             (currentSnapshot exRuntime (exEngineOf None) []))
           = [\<lparr>Feature = ''agent-gallery'', ft_Old = ''ON'', ft_New = []\<rparr>]"
    by (simp add: DiffSnapshots_def currentSnapshot_def exSnapshotOf_def exEngineOf_def
        exGalleryOn_def diffFeatures_def cloneStringMap_def mapKeys_def mapIndex_def
        mapLookup_def)
  from restore_dry_run [OF d, of exRuntime "exOrdersOf []" ?c "Some (exSnapshotOf exGalleryOn [])"
      "exSnapshotOf exGalleryOn []" "exEngineOf None" "[]"] h f
  show ?thesis by simp
qed

text \<open>
  C5 (as amended). For all snapshots \<open>a\<close> and \<open>b\<close> and every order in which \<^verbatim>\<open>range\<close>
  may visit the agent maps: the metadata, engine-field and feature changes of
  \<^verbatim>\<open>DiffSnapshots(b, a)\<close> are those of \<^verbatim>\<open>DiffSnapshots(a, b)\<close>, in the same order, with
  old and new exchanged; and, provided every two agents matched by key agree on their
  links (reasoning-engine references equal or both non-empty, Dialogflow links equal or
  both non-empty), the agent changes of the one are those of the other for the same key
  with old and new exchanged (an addition corresponding to a removal).
\<close>

theorem DiffSnapshots_symmetry:
  assumes "rangeOrder (agentMap (ToLower rt) (sn_Agents b)) od"
    and "rangeOrder (agentMap (ToLower rt) (sn_Agents a)) oc"
    and "rangeOrder (agentMap (ToLower rt) (sn_Agents a)) od'"
    and "rangeOrder (agentMap (ToLower rt) (sn_Agents b)) oc'"
    and agree: "\<forall>k x y. agentMap (ToLower rt) (sn_Agents a) k = Some x
              \<longrightarrow> agentMap (ToLower rt) (sn_Agents b) k = Some y \<longrightarrow> linksAgree x y"
  shows "MetadataChanges (DiffSnapshots rt od' oc' b a)
           = map swapField (MetadataChanges (DiffSnapshots rt od oc a b))
         \<and> EngineChanges (DiffSnapshots rt od' oc' b a)
           = map swapField (EngineChanges (DiffSnapshots rt od oc a b))
         \<and> FeatureChanges (DiffSnapshots rt od' oc' b a)
           = map swapFeature (FeatureChanges (DiffSnapshots rt od oc a b))
         \<and> set (AgentChanges (DiffSnapshots rt od' oc' b a))
           = swapAgentDiff ` set (AgentChanges (DiffSnapshots rt od oc a b))"
proof -
  let ?am = "agentMap (ToLower rt) (sn_Agents a)" and ?bm = "agentMap (ToLower rt) (sn_Agents b)"
  have sw: "isChange ?bm ?am (swapAgentDiff z) = isChange ?am ?bm z" for z
    by (rule isChange_swap) (use agree in blast)
  have ab: "z \<in> set (diffAgents (ToLower rt) od oc (sn_Agents a) (sn_Agents b))
            \<longleftrightarrow> isChange ?am ?bm z" for z
    using diffAgents_sound diffAgents_complete assms(1,2) unfolding rangeOrder_def by blast
  have ba: "z \<in> set (diffAgents (ToLower rt) od' oc' (sn_Agents b) (sn_Agents a))
            \<longleftrightarrow> isChange ?bm ?am z" for z
    using diffAgents_sound diffAgents_complete assms(3,4) unfolding rangeOrder_def by blast
  have "set (diffAgents (ToLower rt) od' oc' (sn_Agents b) (sn_Agents a))
        = swapAgentDiff ` set (diffAgents (ToLower rt) od oc (sn_Agents a) (sn_Agents b))"
  proof (rule set_eqI)
    fix z
    have "z \<in> set (diffAgents (ToLower rt) od' oc' (sn_Agents b) (sn_Agents a))
          \<longleftrightarrow> isChange ?bm ?am (swapAgentDiff (swapAgentDiff z))"
      by (simp add: ba swapAgentDiff_involution)
    also have "\<dots> \<longleftrightarrow> swapAgentDiff z \<in> set (diffAgents (ToLower rt) od oc (sn_Agents a) (sn_Agents b))"
      by (simp add: sw ab)
    also have "\<dots> \<longleftrightarrow> z \<in> swapAgentDiff ` set (diffAgents (ToLower rt) od oc (sn_Agents a) (sn_Agents b))"
    proof
      assume "swapAgentDiff z \<in> set (diffAgents (ToLower rt) od oc (sn_Agents a) (sn_Agents b))"
      then have "swapAgentDiff (swapAgentDiff z)
                 \<in> swapAgentDiff ` set (diffAgents (ToLower rt) od oc (sn_Agents a) (sn_Agents b))"
        by (rule imageI)
      then show "z \<in> swapAgentDiff ` set (diffAgents (ToLower rt) od oc (sn_Agents a) (sn_Agents b))"
        by (simp only: swapAgentDiff_involution)
    next
      assume "z \<in> swapAgentDiff ` set (diffAgents (ToLower rt) od oc (sn_Agents a) (sn_Agents b))"
      then obtain w where w: "z = swapAgentDiff w"
          "w \<in> set (diffAgents (ToLower rt) od oc (sn_Agents a) (sn_Agents b))"
        by blast
      then show "swapAgentDiff z \<in> set (diffAgents (ToLower rt) od oc (sn_Agents a) (sn_Agents b))"
        by (simp only: swapAgentDiff_involution)
    qed
    finally show "z \<in> set (diffAgents (ToLower rt) od' oc' (sn_Agents b) (sn_Agents a))
          \<longleftrightarrow> z \<in> swapAgentDiff ` set (diffAgents (ToLower rt) od oc (sn_Agents a) (sn_Agents b))" .
  qed
  moreover have "diffMetadata (sn_Metadata b) (sn_Metadata a)
                 = map swapField (diffMetadata (sn_Metadata a) (sn_Metadata b) :: 'a FieldDiff list)"
    by (rule diffMetadata_swap)
  moreover have "diffEngineConfig (Sprintf_v rt) (Heap rt) (sn_Engine b) (sn_Engine a)
                 = map swapField (diffEngineConfig (Sprintf_v rt) (Heap rt) (sn_Engine a) (sn_Engine b))"
    by (rule diffEngineConfig_swap)
  moreover have "diffFeatures (ec_Features (sn_Engine b)) (ec_Features (sn_Engine a))
                 = map swapFeature (diffFeatures (ec_Features (sn_Engine a)) (ec_Features (sn_Engine b)))"
    by (rule diffFeatures_swap)
  ultimately show ?thesis
    by (simp add: DiffSnapshots_def)
qed

theorem DiffSnapshots_symmetry_witness:
  "MetadataChanges (DiffSnapshots exRuntime [''extra'', ''helper''] [''helper''] exSnapshotD exSnapshotC)
     = map swapField
         (MetadataChanges (DiffSnapshots exRuntime [''helper''] [''helper'', ''extra''] exSnapshotC exSnapshotD))
   \<and> EngineChanges (DiffSnapshots exRuntime [''extra'', ''helper''] [''helper''] exSnapshotD exSnapshotC)
     = map swapField
         (EngineChanges (DiffSnapshots exRuntime [''helper''] [''helper'', ''extra''] exSnapshotC exSnapshotD))
   \<and> FeatureChanges (DiffSnapshots exRuntime [''extra'', ''helper''] [''helper''] exSnapshotD exSnapshotC)
     = map swapFeature
         (FeatureChanges (DiffSnapshots exRuntime [''helper''] [''helper'', ''extra''] exSnapshotC exSnapshotD))
   \<and> set (AgentChanges (DiffSnapshots exRuntime [''extra'', ''helper''] [''helper''] exSnapshotD exSnapshotC))
     = swapAgentDiff `
         set (AgentChanges (DiffSnapshots exRuntime [''helper''] [''helper'', ''extra''] exSnapshotC exSnapshotD))"
proof -
  have c: "agentMap (ToLower exRuntime) (sn_Agents exSnapshotC)
           = [''helper'' \<mapsto> Some exHelperOld, ''extra'' \<mapsto> Some exExtra]"
    by (simp add: agentMap_def exRuntime_def exSnapshotC_def exKeyOld exKeyExtra)
  have d: "agentMap (ToLower exRuntime) (sn_Agents exSnapshotD) = [''helper'' \<mapsto> Some exHelperNew]"
    by (simp add: agentMap_def exRuntime_def exSnapshotD_def exKeyNew)
  have h1: "rangeOrder (agentMap (ToLower exRuntime) (sn_Agents exSnapshotD)) [''helper'']"
    by (simp add: d rangeOrder_def)
  have h2: "rangeOrder (agentMap (ToLower exRuntime) (sn_Agents exSnapshotC)) [''helper'', ''extra'']"
    by (auto simp: c rangeOrder_def)
  have h3: "rangeOrder (agentMap (ToLower exRuntime) (sn_Agents exSnapshotC)) [''extra'', ''helper'']"
    by (auto simp: c rangeOrder_def)
  have h5: "\<forall>k x y. agentMap (ToLower exRuntime) (sn_Agents exSnapshotC) k = Some x
              \<longrightarrow> agentMap (ToLower exRuntime) (sn_Agents exSnapshotD) k = Some y
              \<longrightarrow> linksAgree x y"
    by (auto simp: c d linksAgree_def exHelperOld_def exHelperNew_def zeroAgent_def agentLink_def
        split: if_splits)
  show ?thesis
    by (rule DiffSnapshots_symmetry [OF h1 h2 h3 h1 h5])
qed

text \<open>
  C5 as stated fails: an agent that differs only in a reasoning-engine reference which is
  empty on one side is reported as updated in one direction and not at all in the other.
\<close>

theorem DiffSnapshots_symmetry_counterexample:
  "rangeOrder (agentMap (ToLower exRuntime) (sn_Agents exSnapshotA)) [''helper'']
   \<and> rangeOrder (agentMap (ToLower exRuntime) (sn_Agents exSnapshotB)) [''helper'']
   \<and> AgentChanges (DiffSnapshots exRuntime [''helper''] [''helper''] exSnapshotA exSnapshotB) = []
   \<and> AgentChanges (DiffSnapshots exRuntime [''helper''] [''helper''] exSnapshotB exSnapshotA)
      = [\<lparr>Key = ''helper'', ChangeType = AgentDiffUpdated, ad_Old = Some exHelperPlain,
          ad_New = Some exHelperWithEngine\<rparr>]"
  by (simp add: rangeOrder_def DiffSnapshots_def diffAgents_def agentMap_def exRuntime_def
      exSnapshotA_def exSnapshotB_def zeroSnapshot_def exKeyA exKeyB exNeeds)

text \<open>
  C6. For every snapshot, when the lookup of the (non-empty) target engine name reports
  not-found and \<^verbatim>\<open>CreateIfMissing\<close> is false, \<^verbatim>\<open>RestoreEngineSnapshot\<close> returns the error
  "engine ... not found and create option disabled", a nil result and the zero diff, and
  has issued no write.
\<close>

theorem restore_missing_target:
  assumes "TargetEngineName opts \<noteq> []"
    and "GetEngineDetails c (TargetEngineName opts) = Inl err"
    and "isNotFound err"
    and "\<not> CreateIfMissing opts"
  shows "RestoreEngineSnapshot rt ro c (Some snapshot) opts
         = \<lparr>ret_Result = None, ret_Diff = zeroDiff,
            ret_Err = Some (Errorf (''engine '' @ TargetEngineName opts
                                    @ '' not found and create option disabled'')),
            ret_Writes = []\<rparr>"
  using assms by (simp add: RestoreEngineSnapshot_def resolveTarget_def)

theorem restore_missing_target_witness:
  "RestoreEngineSnapshot exRuntime (exOrdersOf []) (exClientOf None []) (Some exSnapshotC) exGoneOpts
   = \<lparr>ret_Result = None, ret_Diff = zeroDiff,
      ret_Err = Some (Errorf ''engine projects/p/locations/global/collections/default_collection/engines/gone not found and create option disabled''),
      ret_Writes = []\<rparr>"
proof -
  have n: "TargetEngineName exGoneOpts \<noteq> []"
    by (simp add: exGoneOpts_def)
  have g: "GetEngineDetails (exClientOf None []) (TargetEngineName exGoneOpts)
           = Inl (GoogleApiError 404 ''not found'')"
    by (simp add: exClientOf_def exGoneOpts_def exEngineName_def)
  have f: "isNotFound (GoogleApiError 404 ''not found'')"
    by simp
  have m: "\<not> CreateIfMissing exGoneOpts"
    by (simp add: exGoneOpts_def)
  show ?thesis
    using restore_missing_target [OF n g f m, of exRuntime "exOrdersOf []" exSnapshotC]
    by (simp add: exGoneOpts_def)
qed

text \<open>
  C8. For every agent the derived identity key is the lowercase of the first non-empty
  field in the order Dialogflow agent link, display name, server-assigned name; for a nil
  agent, and when all three are empty, the key is the empty string (Go's
  \<^verbatim>\<open>strings.ToLower\<close> maps the empty string to itself, which is the hypothesis on
  \<open>lower\<close>). The key is a total function of the agent: the equation holds for every
  argument, and no branch of \<open>agentSnapshotKey\<close> is an error.
\<close>

theorem agentSnapshotKey_precedence:
  assumes "lower [] = []"
  shows "agentSnapshotKey lower agent = specAgentKey lower agent"
  using assms
  by (simp add: agentSnapshotKey_def specAgentKey_def agentLink_def
      split: option.splits)

theorem agentSnapshotKey_precedence_witness:
  "asciiLower [] = []
   \<and> agentSnapshotKey asciiLower
        (Some ((zeroAgent :: nat Agent)
           \<lparr>ag_Name := ''projects/p/agents/7'', ag_DisplayName := ''Helper'',
            ag_DialogflowAgentDefinition := Some \<lparr>DialogflowAgent = ''Projects/P/Agents/123''\<rparr>\<rparr>))
      = ''projects/p/agents/123''
   \<and> agentSnapshotKey asciiLower
        (Some ((zeroAgent :: nat Agent)
           \<lparr>ag_Name := ''projects/p/agents/7'', ag_DisplayName := ''Helper'',
            ag_DialogflowAgentDefinition := Some \<lparr>DialogflowAgent = []\<rparr>\<rparr>))
      = ''helper''
   \<and> agentSnapshotKey asciiLower
        (Some ((zeroAgent :: nat Agent)\<lparr>ag_Name := ''Projects/P/Agents/7''\<rparr>))
      = ''projects/p/agents/7''
   \<and> agentSnapshotKey asciiLower (Some (zeroAgent :: nat Agent)) = []
   \<and> agentSnapshotKey asciiLower (None :: nat Agent option) = []"
proof -
  have l: "asciiLower [] = []"
    by (simp add: asciiLower_def)
  note k = agentSnapshotKey_precedence [of asciiLower, OF l]
  show ?thesis
    unfolding k
    by (simp add: l specAgentKey_def agentLink_def zeroAgent_def asciiLower_def
        asciiLowerChar_def)
qed

text \<open>
  C9. When \<^verbatim>\<open>RestoreEngineSnapshot\<close> runs with \<^verbatim>\<open>DryRun\<close> false and \<^verbatim>\<open>UpdateExisting\<close>
  true against an engine that exists, and returns a result, the result has
  \<^verbatim>\<open>EnginePatched\<close> true (and \<^verbatim>\<open>Created\<close> false), also when the update mask computed
  against the live engine is empty, in which case no engine patch is among the writes.
\<close>

theorem restore_marks_patched:
  assumes "\<not> DryRun opts" and "UpdateExisting opts"
    and "GetEngineDetails c (TargetEngineName opts) = Inr (Some engine)"
    and "ret_Result (RestoreEngineSnapshot rt ro c (Some snap) opts) = Some res"
  shows "EnginePatched res \<and> \<not> Created res
         \<and> (engineUpdateMask (Heap rt) engine (sn_Engine snap) = []
              \<longrightarrow> filter isEnginesPatch
                    (ret_Writes (RestoreEngineSnapshot rt ro c (Some snap) opts)) = [])"
proof -
  from restore_result [OF assms(4)] obtain ee ags where
    rs: "resolveTarget c opts = Inr (ee, ags)"
    and ap: "RestoreEngineSnapshot rt ro c (Some snap) opts
             = applySnapshot rt ro c snap opts ee ags (previewDiff rt ro snap ee ags)"
    by auto
  from resolveTarget_existing [OF assms(3) rs] have ee: "ee = Some engine" by simp
  from assms(4) ap have
    "ret_Result (applySnapshot rt ro c snap opts ee ags (previewDiff rt ro snap ee ags)) = Some res"
    by simp
  from applySnapshot_result [OF this] obtain created patched tr1 tr2 changes tr3 where
    es: "engineStep rt c snap opts ee = (Inr (created, patched), tr1)"
    and fs: "applyFeatureSnapshot c (TargetEngineName opts) (ec_Features (sn_Engine snap)) tr1
             = (None, tr2)"
    and sy: "syncAgentsWithSnapshot (ToLower rt) c (TargetEngineName opts) (sy_desired ro)
               (sy_current ro) ags (sn_Agents snap) tr2 = (Inr changes, tr3)"
    and eq: "applySnapshot rt ro c snap opts ee ags (previewDiff rt ro snap ee ags)
             = \<lparr>ret_Result =
                  Some \<lparr>EngineName = TargetEngineName opts, Created = created,
                        EnginePatched = patched,
                        rs_FeatureChanges =
                          diffFeatures (existingEngineFeatures ee) (ec_Features (sn_Engine snap)),
                        rs_AgentChanges = changes\<rparr>,
                ret_Diff = previewDiff rt ro snap ee ags, ret_Err = None, ret_Writes = tr3\<rparr>"
    by blast
  from es ee have es': "engineStep rt c snap opts (Some engine) = (Inr (created, patched), tr1)"
    by simp
  note st = engineStep_update [OF assms(2) es']
  from assms(4) ap eq have res: "EnginePatched res = patched" "Created res = created"
    by auto
  have wr: "ret_Writes (RestoreEngineSnapshot rt ro c (Some snap) opts) = tr3"
    using ap eq by simp
  have "filter isEnginesPatch tr3 = []" if m: "engineUpdateMask (Heap rt) engine (sn_Engine snap) = []"
  proof -
    from st m have t1: "tr1 = []" by simp
    from applyFeature_trace [of c "TargetEngineName opts" "ec_Features (sn_Engine snap)" tr1] fs t1
    obtain ws where ws: "tr2 = ws" "list_all (Not \<circ> isEnginesPatch) ws" by auto
    from syncAgents_trace [of "ToLower rt" c "TargetEngineName opts" "sy_desired ro"
        "sy_current ro" ags "sn_Agents snap" tr2] sy
    obtain ws' where ws': "tr3 = tr2 @ ws'" "list_all isAgentWrite ws'" by auto
    from ws have "filter isEnginesPatch tr2 = []"
      by (simp add: filter_empty_conv list_all_iff)
    with ws' agentWrite_not_patch [OF ws'(2)] show ?thesis by simp
  qed
  with st res wr show ?thesis by simp
qed

theorem restore_marks_patched_witness:
  "engineUpdateMask (Heap exRuntime) (exEngineOf exGalleryOn)
     (sn_Engine (exSnapshotOf exGalleryOn [])) = []
   \<and> ret_Result (RestoreEngineSnapshot exRuntime (exOrdersOf []) (exClientOf exGalleryOn [])
                    (Some (exSnapshotOf exGalleryOn [])) (exOpts False True False))
     = Some \<lparr>EngineName = exEngineName, Created = False, EnginePatched = True,
             rs_FeatureChanges = [], rs_AgentChanges = []\<rparr>
   \<and> filter isEnginesPatch
        (ret_Writes (RestoreEngineSnapshot exRuntime (exOrdersOf []) (exClientOf exGalleryOn [])
                       (Some (exSnapshotOf exGalleryOn [])) (exOpts False True False))) = []"
proof -
  let ?c = "exClientOf exGalleryOn []"
  let ?s = "exSnapshotOf exGalleryOn []"
  let ?o = "exOpts False True False"
  have m: "engineUpdateMask (Heap exRuntime) (exEngineOf exGalleryOn) (sn_Engine ?s) = []"
    by (simp add: engineUpdateMask_def exEngineOf_def exSnapshotOf_def stringSlicesEqual_iff)
  have r: "RestoreEngineSnapshot exRuntime (exOrdersOf []) ?c (Some ?s) ?o
           = applySnapshot exRuntime (exOrdersOf []) ?c ?s ?o (Some (exEngineOf exGalleryOn)) []
               zeroDiff"
    by (simp add: RestoreEngineSnapshot_def exResolve exPreview_empty)
       (simp add: exOpts_def exName_nonempty)
  have f: "diffFeatures (Some [(''agent-gallery'', ''ON'')]) (Some [(''agent-gallery'', ''ON'')]) = []"
    by (simp add: diffFeatures_def)
  have h: "ret_Result (RestoreEngineSnapshot exRuntime (exOrdersOf []) ?c (Some ?s) ?o)
           = Some \<lparr>EngineName = exEngineName, Created = False, EnginePatched = True,
                   rs_FeatureChanges = [], rs_AgentChanges = []\<rparr>"
    unfolding r
    using m
    by (simp add: applySnapshot_def engineStep_def patchEngineFromSnapshot_def
        applyFeatureSnapshot_def issue_def syncAgentsWithSnapshot_def
        exOpts_def exSnapshotOf_def exGalleryOn_def exClientOf_def exOrdersOf_def
        existingEngineFeatures_def exEngineOf_def cloneStringMap_def f)
  have d: "\<not> DryRun ?o" and u: "UpdateExisting ?o"
    by (simp_all add: exOpts_def)
  have g: "GetEngineDetails ?c (TargetEngineName ?o) = Inr (Some (exEngineOf exGalleryOn))"
    by (simp add: exClientOf_def exOpts_def)
  from restore_marks_patched [OF d u g h] m h show ?thesis
    by simp
qed

text \<open>
  C10. When \<^verbatim>\<open>RestoreEngineSnapshot\<close> runs with \<^verbatim>\<open>DryRun\<close> false against an engine that
  exists, and returns a result: the diff it returns is \<^verbatim>\<open>DiffSnapshots\<close> of the snapshot
  against the live engine, so the old value of each of its metadata, engine-field and
  feature changes is the snapshot's and the new value the live engine's, and the old agent
  of an agent change is the snapshot's, the new one the live engine's; the feature changes
  of the result are \<^verbatim>\<open>diffFeatures(live, snapshot)\<close>, with the live value as old and the
  snapshot's as new; the second list of feature changes is the first with old and new
  exchanged.
\<close>

theorem restore_diff_orientation:
  assumes "\<not> DryRun opts"
    and "GetEngineDetails c (TargetEngineName opts) = Inr (Some engine)"
    and "ret_Result (RestoreEngineSnapshot rt ro c (Some snap) opts) = Some res"
  shows "(\<exists>agents. ListAgents c (TargetEngineName opts) = Inr agents
            \<and> ret_Diff (RestoreEngineSnapshot rt ro c (Some snap) opts)
              = DiffSnapshots rt (pv_desired ro) (pv_current ro) snap
                  (currentSnapshot rt engine agents)
            \<and> (\<forall>fd \<in> set (MetadataChanges
                              (ret_Diff (RestoreEngineSnapshot rt ro c (Some snap) opts))).
                  fd_Old fd = metadataField (fd_Field fd) (sn_Metadata snap)
                  \<and> fd_New fd = metadataField (fd_Field fd)
                                  (sn_Metadata (currentSnapshot rt engine agents)))
            \<and> (\<forall>fd \<in> set (EngineChanges
                              (ret_Diff (RestoreEngineSnapshot rt ro c (Some snap) opts))).
                  fd_Old fd = engineField (fd_Field fd) (sn_Engine snap)
                  \<and> fd_New fd = engineField (fd_Field fd)
                                  (sn_Engine (currentSnapshot rt engine agents)))
            \<and> (\<forall>ch \<in> set (AgentChanges
                              (ret_Diff (RestoreEngineSnapshot rt ro c (Some snap) opts))).
                  isChange (agentMap (ToLower rt) (sn_Agents snap))
                    (agentMap (ToLower rt) (cloneAgents agents)) ch))
         \<and> FeatureChanges (ret_Diff (RestoreEngineSnapshot rt ro c (Some snap) opts))
           = diffFeatures (ec_Features (sn_Engine snap)) (en_Features engine)
         \<and> rs_FeatureChanges res
           = diffFeatures (en_Features engine) (ec_Features (sn_Engine snap))
         \<and> (\<forall>fc \<in> set (FeatureChanges (ret_Diff (RestoreEngineSnapshot rt ro c (Some snap) opts))).
               ft_Old fc = mapIndex (ec_Features (sn_Engine snap)) (Feature fc)
               \<and> ft_New fc = mapIndex (en_Features engine) (Feature fc))
         \<and> (\<forall>fc \<in> set (rs_FeatureChanges res).
               ft_Old fc = mapIndex (en_Features engine) (Feature fc)
               \<and> ft_New fc = mapIndex (ec_Features (sn_Engine snap)) (Feature fc))
         \<and> rs_FeatureChanges res
           = map swapFeature
               (FeatureChanges (ret_Diff (RestoreEngineSnapshot rt ro c (Some snap) opts)))"
proof -
  let ?R = "RestoreEngineSnapshot rt ro c (Some snap) opts"
  from restore_result [OF assms(3)] obtain ee ags where
    rs: "resolveTarget c opts = Inr (ee, ags)"
    and ap: "?R = applySnapshot rt ro c snap opts ee ags (previewDiff rt ro snap ee ags)"
    by auto
  from resolveTarget_existing [OF assms(2) rs] have
    ee: "ee = Some engine" and la: "ListAgents c (TargetEngineName opts) = Inr ags"
    by simp_all
  from assms(3) ap have
    "ret_Result (applySnapshot rt ro c snap opts ee ags (previewDiff rt ro snap ee ags)) = Some res"
    by simp
  from applySnapshot_result [OF this] obtain created patched changes tr3 where
    eq: "applySnapshot rt ro c snap opts ee ags (previewDiff rt ro snap ee ags)
             = \<lparr>ret_Result =
                  Some \<lparr>EngineName = TargetEngineName opts, Created = created,
                        EnginePatched = patched,
                        rs_FeatureChanges =
                          diffFeatures (existingEngineFeatures ee) (ec_Features (sn_Engine snap)),
                        rs_AgentChanges = changes\<rparr>,
                ret_Diff = previewDiff rt ro snap ee ags, ret_Err = None, ret_Writes = tr3\<rparr>"
    by blast
  let ?live = "currentSnapshot rt engine ags"
  have d: "ret_Diff ?R = DiffSnapshots rt (pv_desired ro) (pv_current ro) snap ?live"
    using ap eq ee by (simp add: previewDiff_def)
  note o = DiffSnapshots_orientation [of rt "pv_desired ro" "pv_current ro" snap ?live]
  have lf: "ec_Features (sn_Engine ?live) = en_Features engine"
    by (simp add: currentSnapshot_def cloneStringMap_id)
  have la': "sn_Agents ?live = cloneAgents ags"
    by (simp add: currentSnapshot_def)
  have pf: "FeatureChanges (ret_Diff ?R)
            = diffFeatures (ec_Features (sn_Engine snap)) (en_Features engine)"
    by (simp add: d DiffSnapshots_def lf)
  from assms(3) ap eq ee have rf: "rs_FeatureChanges res
                 = diffFeatures (en_Features engine) (ec_Features (sn_Engine snap))"
    by (auto simp: existingEngineFeatures_def cloneStringMap_id)
  have sw: "rs_FeatureChanges res = map swapFeature (FeatureChanges (ret_Diff ?R))"
    unfolding pf rf by (rule diffFeatures_swap)
  have 1: "\<exists>agents. ListAgents c (TargetEngineName opts) = Inr agents
            \<and> ret_Diff ?R = DiffSnapshots rt (pv_desired ro) (pv_current ro) snap
                  (currentSnapshot rt engine agents)
            \<and> (\<forall>fd \<in> set (MetadataChanges (ret_Diff ?R)).
                  fd_Old fd = metadataField (fd_Field fd) (sn_Metadata snap)
                  \<and> fd_New fd = metadataField (fd_Field fd)
                                  (sn_Metadata (currentSnapshot rt engine agents)))
            \<and> (\<forall>fd \<in> set (EngineChanges (ret_Diff ?R)).
                  fd_Old fd = engineField (fd_Field fd) (sn_Engine snap)
                  \<and> fd_New fd = engineField (fd_Field fd)
                                  (sn_Engine (currentSnapshot rt engine agents)))
            \<and> (\<forall>ch \<in> set (AgentChanges (ret_Diff ?R)).
                  isChange (agentMap (ToLower rt) (sn_Agents snap))
                    (agentMap (ToLower rt) (cloneAgents agents)) ch)"
  proof (intro exI conjI)
    show "ListAgents c (TargetEngineName opts) = Inr ags" by (rule la)
    show "ret_Diff ?R = DiffSnapshots rt (pv_desired ro) (pv_current ro) snap ?live" by (rule d)
    show "\<forall>fd \<in> set (MetadataChanges (ret_Diff ?R)).
            fd_Old fd = metadataField (fd_Field fd) (sn_Metadata snap)
            \<and> fd_New fd = metadataField (fd_Field fd) (sn_Metadata ?live)"
      unfolding d using o by blast
    show "\<forall>fd \<in> set (EngineChanges (ret_Diff ?R)).
            fd_Old fd = engineField (fd_Field fd) (sn_Engine snap)
            \<and> fd_New fd = engineField (fd_Field fd) (sn_Engine ?live)"
      unfolding d using o by blast
    show "\<forall>ch \<in> set (AgentChanges (ret_Diff ?R)).
            isChange (agentMap (ToLower rt) (sn_Agents snap))
              (agentMap (ToLower rt) (cloneAgents ags)) ch"
      unfolding d using o la' by simp
  qed
  have 4: "\<forall>fc \<in> set (FeatureChanges (ret_Diff ?R)).
               ft_Old fc = mapIndex (ec_Features (sn_Engine snap)) (Feature fc)
               \<and> ft_New fc = mapIndex (en_Features engine) (Feature fc)"
    unfolding pf using diffFeatures_orientation by blast
  have 5: "\<forall>fc \<in> set (rs_FeatureChanges res).
               ft_Old fc = mapIndex (en_Features engine) (Feature fc)
               \<and> ft_New fc = mapIndex (ec_Features (sn_Engine snap)) (Feature fc)"
    unfolding rf using diffFeatures_orientation by blast
  show ?thesis
    by (intro conjI) (fact 1 pf rf 4 5 sw)+
qed

theorem restore_diff_orientation_witness:
  "FeatureChanges
     (ret_Diff (RestoreEngineSnapshot exRuntime (exOrdersOf []) (exClientOf exLiveFeatures [])
                  (Some (exSnapshotOf exGalleryOn [])) (exOpts False False False)))
   = [\<lparr>Feature = ''agent-gallery'', ft_Old = ''ON'', ft_New = ''OFF''\<rparr>,
      \<lparr>Feature = ''prompt-gallery'', ft_Old = [], ft_New = ''ON''\<rparr>]
   \<and> map_option rs_FeatureChanges
        (ret_Result (RestoreEngineSnapshot exRuntime (exOrdersOf []) (exClientOf exLiveFeatures [])
                       (Some (exSnapshotOf exGalleryOn [])) (exOpts False False False)))
     = Some [\<lparr>Feature = ''agent-gallery'', ft_Old = ''OFF'', ft_New = ''ON''\<rparr>,
             \<lparr>Feature = ''prompt-gallery'', ft_Old = ''ON'', ft_New = []\<rparr>]"
proof -
  let ?c = "exClientOf exLiveFeatures []"
  let ?s = "exSnapshotOf exGalleryOn []"
  let ?o = "exOpts False False False"
  let ?R = "RestoreEngineSnapshot exRuntime (exOrdersOf []) ?c (Some ?s) ?o"
  have r: "?R = applySnapshot exRuntime (exOrdersOf []) ?c ?s ?o (Some (exEngineOf exLiveFeatures)) []
                  (previewDiff exRuntime (exOrdersOf []) ?s (Some (exEngineOf exLiveFeatures)) [])"
    by (simp add: RestoreEngineSnapshot_def exResolve)
       (simp add: exOpts_def exName_nonempty)
  obtain res where h: "ret_Result ?R = Some res"
    unfolding r
    by (simp add: applySnapshot_def engineStep_def applyFeatureSnapshot_def issue_def
        syncAgentsWithSnapshot_def exOpts_def exSnapshotOf_def exGalleryOn_def exClientOf_def
        exOrdersOf_def)
  have d: "\<not> DryRun ?o"
    by (simp add: exOpts_def)
  have g: "GetEngineDetails ?c (TargetEngineName ?o) = Inr (Some (exEngineOf exLiveFeatures))"
    by (simp add: exClientOf_def exOpts_def)
  have f1: "diffFeatures (ec_Features (sn_Engine ?s)) (en_Features (exEngineOf exLiveFeatures))
            = [\<lparr>Feature = ''agent-gallery'', ft_Old = ''ON'', ft_New = ''OFF''\<rparr>,
               \<lparr>Feature = ''prompt-gallery'', ft_Old = [], ft_New = ''ON''\<rparr>]"
    by (simp add: exSnapshotOf_def exEngineOf_def exGalleryOn_def exLiveFeatures_def
        diffFeatures_def mapKeys_def mapIndex_def mapLookup_def)
  have f2: "diffFeatures (en_Features (exEngineOf exLiveFeatures)) (ec_Features (sn_Engine ?s))
            = [\<lparr>Feature = ''agent-gallery'', ft_Old = ''OFF'', ft_New = ''ON''\<rparr>,
               \<lparr>Feature = ''prompt-gallery'', ft_Old = ''ON'', ft_New = []\<rparr>]"
    by (simp add: exSnapshotOf_def exEngineOf_def exGalleryOn_def exLiveFeatures_def
        diffFeatures_def mapKeys_def mapIndex_def mapLookup_def)
  from restore_diff_orientation [OF d g h] h f1 f2 show ?thesis
    by simp
qed

end
